theory Spec2Isabelle
  imports Main "HOL-Library.Word" "HOL-Library.AList" "HOL-Library.Multiset"
begin

unbundle bit_operations_syntax

section \<open>Go values used by the encoder\<close>

text \<open>
  The encoder is the package \<^verbatim>\<open>otel\<close> (\<^verbatim>\<open>EncodeEvents\<close> and its helpers). A Go
  \<^verbatim>\<open>string\<close> is a sequence of bytes, as \<^typ>\<open>string\<close> is here; \<^verbatim>\<open>[]byte\<close> is a list
  of 8-bit words; \<^verbatim>\<open>int64\<close> and \<^verbatim>\<open>uint64\<close> are 64-bit words.
\<close>

type_synonym byte = "8 word"

definition bytes :: "string \<Rightarrow> byte list" where
  "bytes s = map of_char s"

subsection \<open>Decimal rendering: \<^verbatim>\<open>fmt.Sprintf("%d", n)\<close>\<close>

definition digitChar :: "nat \<Rightarrow> char" where
  "digitChar d = char_of (48 + d)"

fun showNat :: "nat \<Rightarrow> string" where
  "showNat n = (if n < 10 then [digitChar n] else showNat (n div 10) @ [digitChar (n mod 10)])"

declare showNat.simps [simp del]

definition showInt :: "int \<Rightarrow> string" where
  "showInt i = (if i < 0 then CHR ''-'' # showNat (nat (- i)) else showNat (nat i))"

subsection \<open>\<^verbatim>\<open>time.Time\<close>\<close>

text \<open>
  A \<^verbatim>\<open>time.Time\<close> is modelled by its instant: the nanoseconds since the Unix epoch, an
  unbounded integer. \<^verbatim>\<open>UnixNano()\<close> computes that number in \<^verbatim>\<open>int64\<close> arithmetic, which
  wraps around.
\<close>

type_synonym time = int

definition UnixNano :: "time \<Rightarrow> 64 word" where
  "UnixNano t = word_of_int t"

subsection \<open>\<^verbatim>\<open>encoding/hex\<close>\<close>

definition hexDigit :: "nat \<Rightarrow> char" where
  "hexDigit d = (if d < 10 then char_of (48 + d) else char_of (87 + d))"

definition hex_EncodeToString :: "byte list \<Rightarrow> string" where
  "hex_EncodeToString bs = concat (map (\<lambda>b. [hexDigit (unat b div 16), hexDigit (unat b mod 16)]) bs)"

definition fromHexChar :: "char \<Rightarrow> byte option" where
  "fromHexChar c =
     (let n = (of_char c :: nat) in
      if 48 \<le> n \<and> n \<le> 57 then Some (of_nat (n - 48))
      else if 97 \<le> n \<and> n \<le> 102 then Some (of_nat (n - 87))
      else if 65 \<le> n \<and> n \<le> 70 then Some (of_nat (n - 55))
      else None)"

text \<open>\<^verbatim>\<open>hex.DecodeString\<close>: \<open>None\<close> is its error (an odd length or a byte that is no hex digit).\<close>

fun hex_DecodeString :: "string \<Rightarrow> byte list option" where
  "hex_DecodeString [] = Some []"
| "hex_DecodeString [p] = None"
| "hex_DecodeString (p # q # rest) =
     (case fromHexChar p of
        None \<Rightarrow> None
      | Some a \<Rightarrow>
          (case fromHexChar q of
             None \<Rightarrow> None
           | Some b \<Rightarrow>
               (case hex_DecodeString rest of
                  None \<Rightarrow> None
                | Some bs \<Rightarrow> Some ((push_bit 4 a OR b) # bs))))"

subsection \<open>\<^verbatim>\<open>strings.TrimSpace\<close>, \<^verbatim>\<open>strings.ToLower\<close>, \<^verbatim>\<open>strings.ReplaceAll\<close>\<close>

text \<open>
  \<^verbatim>\<open>TrimSpace\<close> removes leading and trailing white space as Unicode defines it. On the
  bytes of the string these are the UTF-8 encodings of U+0009..U+000D, U+0020, U+0085,
  U+00A0, U+1680, U+2000..U+200A, U+2028, U+2029, U+202F, U+205F and U+3000; a byte that
  starts no valid encoding is no space.
\<close>

definition whiteSpace :: "string list" where
  "whiteSpace =
     [[CHR 0x09], [CHR 0x0A], [CHR 0x0B], [CHR 0x0C], [CHR 0x0D], [CHR 0x20],
      [CHR 0xC2, CHR 0x85], [CHR 0xC2, CHR 0xA0], [CHR 0xE1, CHR 0x9A, CHR 0x80],
      [CHR 0xE2, CHR 0x80, CHR 0x80], [CHR 0xE2, CHR 0x80, CHR 0x81],
      [CHR 0xE2, CHR 0x80, CHR 0x82], [CHR 0xE2, CHR 0x80, CHR 0x83],
      [CHR 0xE2, CHR 0x80, CHR 0x84], [CHR 0xE2, CHR 0x80, CHR 0x85],
      [CHR 0xE2, CHR 0x80, CHR 0x86], [CHR 0xE2, CHR 0x80, CHR 0x87],
      [CHR 0xE2, CHR 0x80, CHR 0x88], [CHR 0xE2, CHR 0x80, CHR 0x89],
      [CHR 0xE2, CHR 0x80, CHR 0x8A], [CHR 0xE2, CHR 0x80, CHR 0xA8],
      [CHR 0xE2, CHR 0x80, CHR 0xA9], [CHR 0xE2, CHR 0x80, CHR 0xAF],
      [CHR 0xE2, CHR 0x81, CHR 0x9F], [CHR 0xE3, CHR 0x80, CHR 0x80]]"

definition startsWith :: "string \<Rightarrow> string \<Rightarrow> bool" where
  "startsWith s p = (take (length p) s = p)"

text \<open>
  \<open>trimLeft ps n s\<close> removes from the front of \<open>s\<close> every leading occurrence of a
  pattern of \<open>ps\<close>, looking at most \<open>n\<close> times; \<open>length s\<close> looks are always enough.
\<close>

fun trimLeft :: "string list \<Rightarrow> nat \<Rightarrow> string \<Rightarrow> string" where
  "trimLeft ps 0 s = s"
| "trimLeft ps (Suc n) s =
     (case find (\<lambda>p. p \<noteq> [] \<and> startsWith s p) ps of
        None \<Rightarrow> s
      | Some p \<Rightarrow> trimLeft ps n (drop (length p) s))"

definition TrimSpace :: "string \<Rightarrow> string" where
  "TrimSpace s =
     (let l = trimLeft whiteSpace (length s) s
      in rev (trimLeft (map rev whiteSpace) (length l) (rev l)))"

text \<open>
  \<^verbatim>\<open>ToLower\<close> on the ASCII letters. A byte from 0x80 on is kept as it is: Go maps the
  rune it belongs to to its Unicode lower case (and an invalid byte to U+FFFD), and no rune
  outside ASCII has a hex digit or a hyphen as its lower case, so \<open>normalizeHex\<close> below
  rejects the string in Go exactly when it rejects it here.
\<close>

definition toLowerChar :: "char \<Rightarrow> char" where
  "toLowerChar c = (let n = (of_char c :: nat) in if 65 \<le> n \<and> n \<le> 90 then char_of (n + 32) else c)"

definition ToLower :: "string \<Rightarrow> string" where
  "ToLower s = map toLowerChar s"

definition stripHyphens :: "string \<Rightarrow> string" where
  "stripHyphens s = filter (\<lambda>c. c \<noteq> CHR ''-'') s"

section \<open>\<^verbatim>\<open>crypto/sha256\<close>\<close>

text \<open>
  \<^verbatim>\<open>sha256.Sum256\<close> belongs to the Go standard library. It is written out here after
  FIPS 180-4 so that the identifiers of concrete inputs can be computed.
\<close>

definition rotr :: "nat \<Rightarrow> 32 word \<Rightarrow> 32 word" where
  "rotr n x = drop_bit n x OR push_bit (32 - n) x"

definition K256 :: "32 word list" where
  "K256 =
    [0x428A2F98, 0x71374491, 0xB5C0FBCF, 0xE9B5DBA5, 0x3956C25B, 0x59F111F1, 0x923F82A4, 0xAB1C5ED5,
     0xD807AA98, 0x12835B01, 0x243185BE, 0x550C7DC3, 0x72BE5D74, 0x80DEB1FE, 0x9BDC06A7, 0xC19BF174,
     0xE49B69C1, 0xEFBE4786, 0x0FC19DC6, 0x240CA1CC, 0x2DE92C6F, 0x4A7484AA, 0x5CB0A9DC, 0x76F988DA,
     0x983E5152, 0xA831C66D, 0xB00327C8, 0xBF597FC7, 0xC6E00BF3, 0xD5A79147, 0x06CA6351, 0x14292967,
     0x27B70A85, 0x2E1B2138, 0x4D2C6DFC, 0x53380D13, 0x650A7354, 0x766A0ABB, 0x81C2C92E, 0x92722C85,
     0xA2BFE8A1, 0xA81A664B, 0xC24B8B70, 0xC76C51A3, 0xD192E819, 0xD6990624, 0xF40E3585, 0x106AA070,
     0x19A4C116, 0x1E376C08, 0x2748774C, 0x34B0BCB5, 0x391C0CB3, 0x4ED8AA4A, 0x5B9CCA4F, 0x682E6FF3,
     0x748F82EE, 0x78A5636F, 0x84C87814, 0x8CC70208, 0x90BEFFFA, 0xA4506CEB, 0xBEF9A3F7, 0xC67178F2]"

definition H256 :: "32 word list" where
  "H256 =
    [0x6A09E667, 0xBB67AE85, 0x3C6EF372, 0xA54FF53A, 0x510E527F, 0x9B05688C, 0x1F83D9AB, 0x5BE0CD19]"

definition be32 :: "byte list \<Rightarrow> 32 word" where
  "be32 bs = foldl (\<lambda>acc b. push_bit 8 acc OR ucast b) 0 bs"

definition len64 :: "nat \<Rightarrow> byte list" where
  "len64 n = (let v = (of_nat n :: 64 word) in map (\<lambda>i. ucast (drop_bit (56 - 8 * i) v)) [0..<8])"

definition pad :: "byte list \<Rightarrow> byte list" where
  "pad m = m @ [0x80] @ replicate ((119 - length m mod 64) mod 64) 0 @ len64 (8 * length m)"

fun chunks :: "nat \<Rightarrow> 'a list \<Rightarrow> 'a list list" where
  "chunks n [] = []"
| "chunks n (x # xs) = (if n = 0 then [] else take n (x # xs) # chunks n (drop n (x # xs)))"

text \<open>The message schedule, newest word first.\<close>

fun sched :: "nat \<Rightarrow> 32 word list \<Rightarrow> 32 word list" where
  "sched 0 ws = ws"
| "sched (Suc n) ws =
    (let w2 = ws ! 1; w7 = ws ! 6; w15 = ws ! 14; w16 = ws ! 15;
         s0 = rotr 7 w15 XOR rotr 18 w15 XOR drop_bit 3 w15;
         s1 = rotr 17 w2 XOR rotr 19 w2 XOR drop_bit 10 w2
     in sched n ((w16 + s0 + w7 + s1) # ws))"

fun sha_round :: "32 word list \<Rightarrow> 32 word \<times> 32 word \<Rightarrow> 32 word list" where
  "sha_round [a, b, c, d, e, f, g, h] (k, w) =
    (let S1 = rotr 6 e XOR rotr 11 e XOR rotr 25 e;
         ch = (e AND f) XOR (NOT e AND g);
         t1 = h + S1 + ch + k + w;
         S0 = rotr 2 a XOR rotr 13 a XOR rotr 22 a;
         maj = (a AND b) XOR (a AND c) XOR (b AND c);
         t2 = S0 + maj
     in [t1 + t2, a, b, c, d + t1, e, f, g])"
| "sha_round s _ = s"

definition compress :: "32 word list \<Rightarrow> byte list \<Rightarrow> 32 word list" where
  "compress hs blk =
    (let w = rev (sched 48 (rev (map be32 (chunks 4 blk))))
     in map2 (+) hs (foldl sha_round hs (zip K256 w)))"

definition word_bytes :: "32 word \<Rightarrow> byte list" where
  "word_bytes w = map (\<lambda>i. ucast (drop_bit (24 - 8 * i) w)) [0..<4]"

definition sha256 :: "byte list \<Rightarrow> byte list" where
  "sha256 m = concat (map word_bytes (foldl compress H256 (chunks 64 (pad m))))"

section \<open>Identifier deriver\<close>

text \<open>
  \<^verbatim>\<open>randomBytes(n, ts)\<close>, \<^verbatim>\<open>uuidFallback(ts)\<close>, \<^verbatim>\<open>normalizeHex(id)\<close>,
  \<^verbatim>\<open>traceIDFromString(id)\<close> and \<^verbatim>\<open>spanIDFromString(id)\<close>. The two derivers read the
  clock (\<^verbatim>\<open>time.Now()\<close>) when the id is empty; the reading is the argument \<open>now\<close>.
  The parameter \<^verbatim>\<open>id\<close> is written \<open>ident\<close>.
  A slice expression \<^verbatim>\<open>s[:n]\<close> is \<open>take n s\<close>; Go panics when \<open>n\<close> exceeds the
  capacity, so a result of length \<open>n\<close> here is a slice expression that was in range.
\<close>

definition randomBytes :: "nat \<Rightarrow> time \<Rightarrow> byte list" where
  "randomBytes n ts =
     (let sum = sha256 (bytes (showInt (sint (UnixNano ts)) @ '':'' @ showInt (int n)))
      in take n sum)"

definition uuidFallback :: "time \<Rightarrow> string" where
  "uuidFallback ts =
     (let seed = showInt (sint (UnixNano ts));
          sum = sha256 (bytes seed)
      in hex_EncodeToString (take 16 sum))"

definition isLowerHex :: "char \<Rightarrow> bool" where
  "isLowerHex ch = (let n = (of_char ch :: nat) in \<not> ((n < 48 \<or> n > 57) \<and> (n < 97 \<or> n > 102)))"

definition normalizeHex :: "string \<Rightarrow> string" where
  "normalizeHex ident =
     (let normalized = ToLower (TrimSpace ident);
          normalized = stripHyphens normalized
      in if list_all isLowerHex normalized then normalized else [])"

definition traceIDFromString :: "time \<Rightarrow> string \<Rightarrow> byte list" where
  "traceIDFromString now ident =
     (if ident = [] then randomBytes 16 now
      else
        let normalized = normalizeHex ident
        in case (if length normalized = 32 then hex_DecodeString normalized else None) of
             Some decoded \<Rightarrow> decoded
           | None \<Rightarrow> take 16 (sha256 (bytes ident)))"

definition spanIDFromString :: "time \<Rightarrow> string \<Rightarrow> byte list" where
  "spanIDFromString now ident =
     (if ident = [] then randomBytes 8 now
      else
        let normalized = normalizeHex ident
        in case (if length normalized = 16 then hex_DecodeString normalized else None) of
             Some decoded \<Rightarrow> decoded
           | None \<Rightarrow>
               (case (if length normalized = 32 then hex_DecodeString normalized else None) of
                  Some decoded \<Rightarrow> take 8 decoded
                | None \<Rightarrow> take 8 (sha256 (bytes ident))))"

section \<open>Data model\<close>

subsection \<open>Package \<^verbatim>\<open>model\<close>\<close>

text \<open>
  A value of the interface type \<^verbatim>\<open>any\<close>: \<open>AnyNil\<close> is the nil interface, the others are
  the dynamic types the encoder tells apart (\<^verbatim>\<open>map[string]string\<close>, \<^verbatim>\<open>map[string]any\<close>)
  or builds itself, and JSON-shaped values. \<open>AnyM\<close> is the named type \<^verbatim>\<open>model.M\<close>, which
  a type switch does not take for \<^verbatim>\<open>map[string]any\<close>. A map is the list of its
  entries; a \<^verbatim>\<open>float64\<close> is its IEEE 754 bit pattern.
\<close>

datatype any =
    AnyNil
  | AnyBool bool
  | AnyInt int
  | AnyFloat64 "64 word"
  | AnyString string
  | AnyUsageUnit string
  | AnySlice "any list"
  | AnyMapStringString "(string \<times> string) list"
  | AnyMapStringAny "(string \<times> any) list"
  | AnyM "(string \<times> any) list"

record model_Usage =
  Usage_Input :: int
  Usage_Output :: int
  Usage_Total :: int
  Usage_Unit :: string
  Usage_InputCost :: "64 word"
  Usage_OutputCost :: "64 word"
  Usage_TotalCost :: "64 word"
  Usage_PromptTokens :: int
  Usage_CompletionTokens :: int
  Usage_TotalTokens :: int

record model_Trace =
  Trace_ID :: string
  Trace_Timestamp :: "time option"
  Trace_Name :: string
  Trace_UserID :: string
  Trace_Input :: any
  Trace_Output :: any
  Trace_SessionID :: string
  Trace_Release :: string
  Trace_Version :: string
  Trace_Metadata :: any
  Trace_Tags :: "string list"
  Trace_Public :: bool

record model_Generation =
  Gen_TraceID :: string
  Gen_Name :: string
  Gen_StartTime :: "time option"
  Gen_Metadata :: any
  Gen_Input :: any
  Gen_Output :: any
  Gen_Level :: string
  Gen_StatusMessage :: string
  Gen_ParentObservationID :: string
  Gen_Version :: string
  Gen_ID :: string
  Gen_EndTime :: "time option"
  Gen_CompletionStartTime :: "time option"
  Gen_Model :: string
  Gen_ModelParameters :: any
  Gen_Usage :: model_Usage
  Gen_PromptName :: string
  Gen_PromptVersion :: int

record model_Span =
  Span_TraceID :: string
  Span_Name :: string
  Span_StartTime :: "time option"
  Span_Metadata :: any
  Span_Input :: any
  Span_Output :: any
  Span_Level :: string
  Span_StatusMessage :: string
  Span_ParentObservationID :: string
  Span_Version :: string
  Span_ID :: string
  Span_EndTime :: "time option"

record model_Event =
  Event_TraceID :: string
  Event_Name :: string
  Event_StartTime :: "time option"
  Event_Metadata :: any
  Event_Input :: any
  Event_Output :: any
  Event_Level :: string
  Event_StatusMessage :: string
  Event_ParentObservationID :: string
  Event_Version :: string
  Event_ID :: string

text \<open>
  The \<^verbatim>\<open>Body\<close> of an event is an \<^verbatim>\<open>any\<close>. The encoder reads it as one of the four
  payload records, held by value or behind a pointer; a pointer may be nil (\<open>None\<close>).
  Every other body (a score, nil, anything else) is \<open>OtherBody\<close>.
\<close>

datatype body =
    TracePtr "model_Trace option"
  | TraceVal model_Trace
  | GenerationPtr "model_Generation option"
  | GenerationVal model_Generation
  | SpanPtr "model_Span option"
  | SpanVal model_Span
  | EventPtr "model_Event option"
  | EventVal model_Event
  | OtherBody

record model_IngestionEvent =
  Ingestion_Type :: string
  Ingestion_ID :: string
  Ingestion_Timestamp :: time
  Ingestion_Metadata :: any
  Ingestion_Body :: body

definition IngestionEventTypeTraceCreate :: string where
  "IngestionEventTypeTraceCreate = ''trace-create''"

definition IngestionEventTypeGenerationCreate :: string where
  "IngestionEventTypeGenerationCreate = ''generation-create''"

definition IngestionEventTypeGenerationUpdate :: string where
  "IngestionEventTypeGenerationUpdate = ''generation-update''"

definition IngestionEventTypeScoreCreate :: string where
  "IngestionEventTypeScoreCreate = ''score-create''"

definition IngestionEventTypeSpanCreate :: string where
  "IngestionEventTypeSpanCreate = ''span-create''"

definition IngestionEventTypeSpanUpdate :: string where
  "IngestionEventTypeSpanUpdate = ''span-update''"

definition IngestionEventTypeEventCreate :: string where
  "IngestionEventTypeEventCreate = ''event-create''"

subsection \<open>The protocol messages\<close>

datatype commonv1_AnyValue =
    StringValue string
  | BoolValue bool
  | IntValue int
  | ArrayValue "commonv1_AnyValue list"

record commonv1_KeyValue =
  Key :: string
  Value :: commonv1_AnyValue

record tracev1_Status =
  Message :: string

text \<open>
  An attribute list holds pointers to key-values; \<open>None\<close> is the nil pointer that the
  \<^verbatim>\<open>attr...\<close> constructors return for an empty key. A nil byte slice is the empty list.
\<close>

record tracev1_Span =
  TraceId :: "byte list"
  SpanId :: "byte list"
  ParentSpanId :: "byte list"
  Name :: string
  StartTimeUnixNano :: "64 word"
  EndTimeUnixNano :: "64 word"
  Attributes :: "commonv1_KeyValue option list"
  Status :: "tracev1_Status option"

record tracev1_ScopeSpans =
  Scope_Name :: string
  Spans :: "tracev1_Span list"

record tracev1_ResourceSpans =
  Resource_Attributes :: "commonv1_KeyValue option list"
  ScopeSpans :: "tracev1_ScopeSpans list"

record coltrace_ExportTraceServiceRequest =
  ResourceSpans :: "tracev1_ResourceSpans list"

subsection \<open>The encoder's own records\<close>

definition instrumentationName :: string where
  "instrumentationName = ''langfuse-go''"

type_synonym observationKind = string

definition observationKindTrace :: observationKind where
  "observationKindTrace = ''trace''"

definition observationKindSpan :: observationKind where
  "observationKindSpan = ''span''"

definition observationKindGeneration :: observationKind where
  "observationKindGeneration = ''generation''"

definition observationKindEvent :: observationKind where
  "observationKindEvent = ''event''"

record observationState =
  state_kind :: observationKind
  state_id :: string
  state_traceID :: string
  state_parentID :: string
  state_name :: string
  state_startTime :: "time option"
  state_endTime :: "time option"
  state_fallbackTime :: time
  state_completionStartTime :: "time option"
  state_level :: string
  state_statusMessage :: string
  state_input :: any
  state_output :: any
  state_metadata :: any
  state_version :: string
  state_model :: string
  state_modelParameters :: any
  state_usage :: model_Usage
  state_promptName :: string
  state_promptVersion :: int
  state_hasPromptVersion :: bool
  state_public :: "bool option"

record traceContext =
  ctx_traceID :: string
  ctx_traceIDBytes :: "byte list"
  ctx_rootSpanID :: "byte list"
  ctx_propagateAttrs :: "commonv1_KeyValue option list"
  ctx_rootAttrs :: "commonv1_KeyValue option list"

subsection \<open>What the encoder takes from its environment\<close>

text \<open>
  Go leaves the order in which \<^verbatim>\<open>range\<close> visits a map unspecified, and the order may
  differ from one loop to the next. The encoder ranges over the metadata map of a trace
  payload (once for each trace-create event, told apart by the position of the event),
  over the metadata map of an observation state (once for each state, told apart by its
  key) and over the map of the observation states. The order taken at each of these
  places is an input of the model.
\<close>

datatype site = TraceMetadataAt nat | StateMetadataAt string | ObservationStates

text \<open>
  \<^item> \<open>time_Now\<close>: the reading of \<^verbatim>\<open>time.Now()\<close>;
  \<^item> \<open>jsonText v\<close>: the text \<^verbatim>\<open>json.Marshal(v)\<close> returns or, when it fails, the text of
    \<^verbatim>\<open>fmt.Sprint(v)\<close>;
  \<^item> \<open>formatRFC3339Nano t\<close>: \<^verbatim>\<open>t.UTC().Format(time.RFC3339Nano)\<close>;
  \<^item> \<open>protoMarshal r\<close>: the bytes \<^verbatim>\<open>proto.Marshal(r)\<close> returns, \<open>None\<close> when it returns
    an error;
  \<^item> \<open>rangeOrder s ks\<close>: the order in which the \<^verbatim>\<open>range\<close> loop at \<open>s\<close> visits a map
    whose keys are \<open>ks\<close>.
\<close>

record runtime =
  time_Now :: time
  jsonText :: "any \<Rightarrow> string"
  formatRFC3339Nano :: "time \<Rightarrow> string"
  protoMarshal :: "coltrace_ExportTraceServiceRequest \<Rightarrow> byte list option"
  rangeOrder :: "site \<Rightarrow> string list \<Rightarrow> string list"

text \<open>Every order a \<^verbatim>\<open>range\<close> loop can take visits each key once.\<close>

definition valid_order :: "(string list \<Rightarrow> string list) \<Rightarrow> bool" where
  "valid_order ord = (\<forall>ks. mset (ord ks) = mset ks)"

definition valid_runtime :: "runtime \<Rightarrow> bool" where
  "valid_runtime rt = (\<forall>s. valid_order (rangeOrder rt s))"

definition rangeMap :: "(string list \<Rightarrow> string list) \<Rightarrow> (string \<times> 'v) list \<Rightarrow> (string \<times> 'v) list" where
  "rangeMap ord m =
     concat (map (\<lambda>k. case map_of m k of None \<Rightarrow> [] | Some v \<Rightarrow> [(k, v)]) (ord (map fst m)))"

datatype failure = Panic | MarshalError


section \<open>The encoder\<close>

subsection \<open>Small helpers\<close>

definition attrString :: "string \<Rightarrow> string \<Rightarrow> commonv1_KeyValue option" where
  "attrString key value =
     (if key = [] then None else Some \<lparr>Key = key, Value = StringValue value\<rparr>)"

definition attrBool :: "string \<Rightarrow> bool \<Rightarrow> commonv1_KeyValue option" where
  "attrBool key value =
     (if key = [] then None else Some \<lparr>Key = key, Value = BoolValue value\<rparr>)"

definition attrInt :: "string \<Rightarrow> int \<Rightarrow> commonv1_KeyValue option" where
  "attrInt key value =
     (if key = [] then None else Some \<lparr>Key = key, Value = IntValue value\<rparr>)"

definition attrStringArray :: "string \<Rightarrow> string list \<Rightarrow> commonv1_KeyValue option" where
  "attrStringArray key values =
     (if key = [] \<or> length values = 0 then None
      else Some \<lparr>Key = key, Value = ArrayValue (map StringValue values)\<rparr>)"

definition jsonString :: "runtime \<Rightarrow> any \<Rightarrow> string" where
  "jsonString rt value = (if value = AnyNil then [] else jsonText rt value)"

text \<open>\<^verbatim>\<open>x == 0\<close> on a \<^verbatim>\<open>float64\<close>: true of both zeros, false of a NaN.\<close>

definition float64_is_zero :: "64 word \<Rightarrow> bool" where
  "float64_is_zero x = (x AND 0x7FFFFFFFFFFFFFFF = 0)"

definition usageDetails :: "model_Usage \<Rightarrow> any" where
  "usageDetails usage = AnyMapStringAny
     ((if Usage_Input usage \<noteq> 0 then [(''input'', AnyInt (Usage_Input usage))] else []) @
      (if Usage_Output usage \<noteq> 0 then [(''output'', AnyInt (Usage_Output usage))] else []) @
      (if Usage_Total usage \<noteq> 0 then [(''total'', AnyInt (Usage_Total usage))] else []) @
      (if Usage_Unit usage \<noteq> [] then [(''unit'', AnyUsageUnit (Usage_Unit usage))] else []) @
      (if Usage_PromptTokens usage \<noteq> 0 then [(''promptTokens'', AnyInt (Usage_PromptTokens usage))] else []) @
      (if Usage_CompletionTokens usage \<noteq> 0
       then [(''completionTokens'', AnyInt (Usage_CompletionTokens usage))] else []) @
      (if Usage_TotalTokens usage \<noteq> 0 then [(''totalTokens'', AnyInt (Usage_TotalTokens usage))] else []))"

definition costDetails :: "model_Usage \<Rightarrow> any" where
  "costDetails usage = AnyMapStringAny
     ((if \<not> float64_is_zero (Usage_InputCost usage)
       then [(''input'', AnyFloat64 (Usage_InputCost usage))] else []) @
      (if \<not> float64_is_zero (Usage_OutputCost usage)
       then [(''output'', AnyFloat64 (Usage_OutputCost usage))] else []) @
      (if \<not> float64_is_zero (Usage_TotalCost usage)
       then [(''total'', AnyFloat64 (Usage_TotalCost usage))] else []))"

definition hasCost :: "model_Usage \<Rightarrow> bool" where
  "hasCost usage =
     (\<not> float64_is_zero (Usage_InputCost usage) \<or> \<not> float64_is_zero (Usage_OutputCost usage)
      \<or> \<not> float64_is_zero (Usage_TotalCost usage))"

text \<open>\<^verbatim>\<open>usage == model.Usage{}\<close> compares field by field.\<close>

definition isZeroUsage :: "model_Usage \<Rightarrow> bool" where
  "isZeroUsage usage =
     (Usage_Input usage = 0 \<and> Usage_Output usage = 0 \<and> Usage_Total usage = 0
      \<and> Usage_Unit usage = []
      \<and> float64_is_zero (Usage_InputCost usage) \<and> float64_is_zero (Usage_OutputCost usage)
      \<and> float64_is_zero (Usage_TotalCost usage)
      \<and> Usage_PromptTokens usage = 0 \<and> Usage_CompletionTokens usage = 0
      \<and> Usage_TotalTokens usage = 0)"

definition coalesceTime :: "time option \<Rightarrow> time option \<Rightarrow> time option" where
  "coalesceTime current candidate = (if current \<noteq> None then current else candidate)"

definition coalesce :: "string \<Rightarrow> string \<Rightarrow> string" where
  "coalesce current candidate = (if current \<noteq> [] then current else candidate)"

definition coalesceAny :: "any \<Rightarrow> any \<Rightarrow> any" where
  "coalesceAny current candidate =
     (if current \<noteq> AnyNil then current
      else if candidate = AnyNil then current
      else candidate)"

text \<open>
  \<^verbatim>\<open>asTrace\<close>, \<^verbatim>\<open>asGeneration\<close>, \<^verbatim>\<open>asSpan\<close>, \<^verbatim>\<open>asEvent\<close> return a pointer and a
  flag. For a body held by value the pointer is that of a copy; for a body behind a
  pointer it is that pointer, nil or not.
\<close>

definition asTrace :: "body \<Rightarrow> model_Trace option \<times> bool" where
  "asTrace value =
     (case value of TracePtr t \<Rightarrow> (t, True) | TraceVal t \<Rightarrow> (Some t, True) | _ \<Rightarrow> (None, False))"

definition asGeneration :: "body \<Rightarrow> model_Generation option \<times> bool" where
  "asGeneration value =
     (case value of GenerationPtr g \<Rightarrow> (g, True) | GenerationVal g \<Rightarrow> (Some g, True)
      | _ \<Rightarrow> (None, False))"

definition asSpan :: "body \<Rightarrow> model_Span option \<times> bool" where
  "asSpan value =
     (case value of SpanPtr s \<Rightarrow> (s, True) | SpanVal s \<Rightarrow> (Some s, True) | _ \<Rightarrow> (None, False))"

definition asEvent :: "body \<Rightarrow> model_Event option \<times> bool" where
  "asEvent value =
     (case value of EventPtr e \<Rightarrow> (e, True) | EventVal e \<Rightarrow> (Some e, True) | _ \<Rightarrow> (None, False))"

subsection \<open>Attributes\<close>

text \<open>
  \<^verbatim>\<open>appendMetadataAttrs\<close>; \<open>ord\<close> is the order its \<^verbatim>\<open>range\<close> loop takes. The loop body
  skips an empty key.
\<close>

definition appendMetadataAttrs ::
  "runtime \<Rightarrow> (string list \<Rightarrow> string list) \<Rightarrow> string \<Rightarrow> any \<Rightarrow> commonv1_KeyValue option list
     \<Rightarrow> commonv1_KeyValue option list" where
  "appendMetadataAttrs rt ord prefix metadata attrs =
     (case metadata of
        AnyNil \<Rightarrow> attrs
      | AnyMapStringString m \<Rightarrow>
          foldl (\<lambda>attrs (key, value).
                   if key = [] then attrs else attrs @ [attrString (prefix @ key) value])
            attrs (rangeMap ord m)
      | AnyMapStringAny m \<Rightarrow>
          foldl (\<lambda>attrs (key, value).
                   if key = [] then attrs else attrs @ [attrString (prefix @ key) (jsonString rt value)])
            attrs (rangeMap ord m)
      | _ \<Rightarrow> attrs @ [attrString (prefix @ ''raw'') (jsonString rt metadata)])"

definition observationType :: "observationKind \<Rightarrow> string" where
  "observationType kind =
     (if kind = observationKindGeneration then ''generation''
      else if kind = observationKindEvent then ''event''
      else if kind = observationKindTrace \<or> kind = observationKindSpan then ''span''
      else [])"

definition observationAttributes ::
  "runtime \<Rightarrow> (string list \<Rightarrow> string list) \<Rightarrow> observationState \<Rightarrow> commonv1_KeyValue option list" where
  "observationAttributes rt ord state =
     (let attrs = [];
          obsType = observationType (state_kind state);
          attrs = (if obsType \<noteq> [] then attrs @ [attrString ''langfuse.observation.type'' obsType]
                   else attrs);
          attrs = (if state_level state \<noteq> []
                   then attrs @ [attrString ''langfuse.observation.level'' (state_level state)]
                   else attrs);
          attrs = (if state_statusMessage state \<noteq> []
                   then attrs @ [attrString ''langfuse.observation.status_message'' (state_statusMessage state)]
                   else attrs);
          attrs = (if state_input state \<noteq> AnyNil
                   then attrs @ [attrString ''langfuse.observation.input'' (jsonString rt (state_input state))]
                   else attrs);
          attrs = (if state_output state \<noteq> AnyNil
                   then attrs @ [attrString ''langfuse.observation.output'' (jsonString rt (state_output state))]
                   else attrs);
          attrs = appendMetadataAttrs rt ord ''langfuse.observation.metadata.'' (state_metadata state) attrs;
          attrs = (if state_model state \<noteq> []
                   then attrs @ [attrString ''langfuse.observation.model.name'' (state_model state)]
                   else attrs);
          attrs = (if state_modelParameters state \<noteq> AnyNil
                   then attrs @ [attrString ''langfuse.observation.model.parameters''
                                   (jsonString rt (state_modelParameters state))]
                   else attrs);
          attrs = (if \<not> isZeroUsage (state_usage state)
                   then attrs @ [attrString ''langfuse.observation.usage_details''
                                   (jsonString rt (usageDetails (state_usage state)))]
                   else attrs);
          attrs = (if hasCost (state_usage state)
                   then attrs @ [attrString ''langfuse.observation.cost_details''
                                   (jsonString rt (costDetails (state_usage state)))]
                   else attrs);
          attrs = (if state_promptName state \<noteq> []
                   then attrs @ [attrString ''langfuse.observation.prompt.name'' (state_promptName state)]
                   else attrs);
          attrs = (if state_hasPromptVersion state
                   then attrs @ [attrInt ''langfuse.observation.prompt.version'' (state_promptVersion state)]
                   else attrs);
          attrs = (case state_completionStartTime state of
                     Some t \<Rightarrow> attrs @ [attrString ''langfuse.observation.completion_start_time''
                                          (formatRFC3339Nano rt t)]
                   | None \<Rightarrow> attrs);
          attrs = (if state_version state \<noteq> []
                   then attrs @ [attrString ''langfuse.version'' (state_version state)]
                   else attrs);
          attrs = (case state_public state of
                     Some p \<Rightarrow> if state_kind state = observationKindTrace
                               then attrs @ [attrBool ''langfuse.trace.public'' p] else attrs
                   | None \<Rightarrow> attrs)
      in attrs)"

subsection \<open>Trace contexts\<close>

definition buildTraceContext ::
  "runtime \<Rightarrow> (string list \<Rightarrow> string list) \<Rightarrow> string \<Rightarrow> model_Trace \<Rightarrow> traceContext" where
  "buildTraceContext rt ord traceID trace =
     (let propagate = [];
          rootAttrs = [];
          propagate = (if Trace_UserID trace \<noteq> []
                       then propagate @ [attrString ''langfuse.user.id'' (Trace_UserID trace)]
                       else propagate);
          propagate = (if Trace_SessionID trace \<noteq> []
                       then propagate @ [attrString ''langfuse.session.id'' (Trace_SessionID trace)]
                       else propagate);
          propagate = (if Trace_Release trace \<noteq> []
                       then propagate @ [attrString ''langfuse.release'' (Trace_Release trace)]
                       else propagate);
          propagate = (if Trace_Version trace \<noteq> []
                       then propagate @ [attrString ''langfuse.version'' (Trace_Version trace)]
                       else propagate);
          propagate = (if length (Trace_Tags trace) > 0
                       then propagate @ [attrStringArray ''langfuse.trace.tags'' (Trace_Tags trace)]
                       else propagate);
          propagate = appendMetadataAttrs rt ord ''langfuse.trace.metadata.'' (Trace_Metadata trace) propagate;
          rootAttrs = (if Trace_Name trace \<noteq> []
                       then rootAttrs @ [attrString ''langfuse.trace.name'' (Trace_Name trace)]
                       else rootAttrs);
          rootAttrs = (if Trace_Input trace \<noteq> AnyNil
                       then rootAttrs @ [attrString ''langfuse.trace.input'' (jsonString rt (Trace_Input trace))]
                       else rootAttrs);
          rootAttrs = (if Trace_Output trace \<noteq> AnyNil
                       then rootAttrs @ [attrString ''langfuse.trace.output'' (jsonString rt (Trace_Output trace))]
                       else rootAttrs);
          rootAttrs = rootAttrs @ [attrBool ''langfuse.trace.public'' (Trace_Public trace)]
      in \<lparr>ctx_traceID = traceID,
          ctx_traceIDBytes = traceIDFromString (time_Now rt) traceID,
          ctx_rootSpanID = spanIDFromString (time_Now rt) traceID,
          ctx_propagateAttrs = propagate,
          ctx_rootAttrs = rootAttrs\<rparr>)"

text \<open>
  The first loop of \<^verbatim>\<open>EncodeEvents\<close>; \<open>i\<close> is the position of the first event of the
  list in the input. Reading \<^verbatim>\<open>trace.ID\<close> through a nil pointer panics.
\<close>

definition resolveTraceID :: "model_IngestionEvent \<Rightarrow> model_Trace \<Rightarrow> string" where
  "resolveTraceID event trace =
     (let traceID = Trace_ID trace;
          traceID = (if traceID = [] then Ingestion_ID event else traceID);
          traceID = (if traceID = [] then uuidFallback (Ingestion_Timestamp event) else traceID)
      in traceID)"

fun traceContextsLoop ::
  "runtime \<Rightarrow> nat \<Rightarrow> model_IngestionEvent list \<Rightarrow> (string \<rightharpoonup> traceContext)
     \<Rightarrow> failure + (string \<rightharpoonup> traceContext)" where
  "traceContextsLoop rt i [] traceContexts = Inr traceContexts"
| "traceContextsLoop rt i (event # events) traceContexts =
     (if Ingestion_Type event \<noteq> IngestionEventTypeTraceCreate
      then traceContextsLoop rt (Suc i) events traceContexts
      else
        (case asTrace (Ingestion_Body event) of
           (_, False) \<Rightarrow> traceContextsLoop rt (Suc i) events traceContexts
         | (None, True) \<Rightarrow> Inl Panic
         | (Some trace, True) \<Rightarrow>
             (let traceID = resolveTraceID event trace
              in traceContextsLoop rt (Suc i) events
                   (traceContexts(traceID \<mapsto>
                      buildTraceContext rt (rangeOrder rt (TraceMetadataAt i)) traceID trace)))))"


subsection \<open>Aggregation\<close>

text \<open>
  The map \<^verbatim>\<open>observations\<close> is the list of its entries, a new key at the end. In Go
  \<^verbatim>\<open>getOrCreateObservation\<close> returns a pointer to the state stored under the key, storing
  a fresh state first when there is none, and the caller writes the fields through the
  pointer. Here it returns the state, and the caller stores the state it has written with
  \<open>AList.update\<close>.
\<close>

definition zeroUsage :: model_Usage where
  "zeroUsage = \<lparr>Usage_Input = 0, Usage_Output = 0, Usage_Total = 0, Usage_Unit = [],
     Usage_InputCost = 0, Usage_OutputCost = 0, Usage_TotalCost = 0,
     Usage_PromptTokens = 0, Usage_CompletionTokens = 0, Usage_TotalTokens = 0\<rparr>"

definition newObservationState :: "observationKind \<Rightarrow> time \<Rightarrow> observationState" where
  "newObservationState kind fallback =
     \<lparr>state_kind = kind, state_id = [], state_traceID = [], state_parentID = [], state_name = [],
      state_startTime = None, state_endTime = None, state_fallbackTime = fallback,
      state_completionStartTime = None, state_level = [], state_statusMessage = [],
      state_input = AnyNil, state_output = AnyNil, state_metadata = AnyNil, state_version = [],
      state_model = [], state_modelParameters = AnyNil, state_usage = zeroUsage,
      state_promptName = [], state_promptVersion = 0, state_hasPromptVersion = False,
      state_public = None\<rparr>"

definition getOrCreateObservation ::
  "(string \<times> observationState) list \<Rightarrow> string \<Rightarrow> observationKind \<Rightarrow> time \<Rightarrow> observationState" where
  "getOrCreateObservation observations key kind fallback =
     (case map_of observations key of
        Some existing \<Rightarrow> existing
      | None \<Rightarrow> newObservationState kind fallback)"

text \<open>The case \<^verbatim>\<open>IngestionEventTypeTraceCreate\<close> of the second loop, after \<^verbatim>\<open>asTrace\<close>.\<close>

definition applyTraceCreate ::
  "(string \<times> observationState) list \<Rightarrow> model_IngestionEvent \<Rightarrow> model_Trace
     \<Rightarrow> (string \<times> observationState) list" where
  "applyTraceCreate observations event trace =
     (let traceID = resolveTraceID event trace;
          key = ''trace:'' @ traceID;
          state = getOrCreateObservation observations key observationKindTrace (Ingestion_Timestamp event);
          state = state\<lparr>
            state_id := traceID,
            state_traceID := traceID,
            state_name := coalesce (state_name state) (Trace_Name trace),
            state_startTime := coalesceTime (state_startTime state) (Trace_Timestamp trace),
            state_input := coalesceAny (state_input state) (Trace_Input trace),
            state_output := coalesceAny (state_output state) (Trace_Output trace),
            state_version := coalesce (state_version state) (Trace_Version trace),
            state_public := (if state_public state = None then Some (Trace_Public trace)
                             else state_public state)\<rparr>
      in AList.update key state observations)"

definition applyGenerationCreate ::
  "(string \<times> observationState) list \<Rightarrow> model_Generation \<Rightarrow> time \<Rightarrow> (string \<times> observationState) list" where
  "applyGenerationCreate observations gen fallback =
     (let ident = coalesce (Gen_ID gen) (uuidFallback fallback);
          key = ''generation:'' @ ident;
          state = getOrCreateObservation observations key observationKindGeneration fallback;
          state = state\<lparr>
            state_id := ident,
            state_traceID := coalesce (state_traceID state) (Gen_TraceID gen),
            state_parentID := coalesce (state_parentID state) (Gen_ParentObservationID gen),
            state_name := coalesce (state_name state) (Gen_Name gen),
            state_startTime := coalesceTime (state_startTime state) (Gen_StartTime gen),
            state_input := coalesceAny (state_input state) (Gen_Input gen),
            state_output := coalesceAny (state_output state) (Gen_Output gen),
            state_metadata := coalesceAny (state_metadata state) (Gen_Metadata gen),
            state_level := (if state_level state = [] then Gen_Level gen else state_level state),
            state_statusMessage := coalesce (state_statusMessage state) (Gen_StatusMessage gen),
            state_version := coalesce (state_version state) (Gen_Version gen),
            state_model := coalesce (state_model state) (Gen_Model gen),
            state_modelParameters := coalesceAny (state_modelParameters state) (Gen_ModelParameters gen),
            state_usage := (if isZeroUsage (state_usage state) then Gen_Usage gen else state_usage state),
            state_promptName := coalesce (state_promptName state) (Gen_PromptName gen),
            state_promptVersion :=
              (if \<not> state_hasPromptVersion state \<and> Gen_PromptVersion gen \<noteq> 0
               then Gen_PromptVersion gen else state_promptVersion state),
            state_hasPromptVersion :=
              (if \<not> state_hasPromptVersion state \<and> Gen_PromptVersion gen \<noteq> 0
               then True else state_hasPromptVersion state),
            state_completionStartTime :=
              coalesceTime (state_completionStartTime state) (Gen_CompletionStartTime gen)\<rparr>
      in AList.update key state observations)"

definition applyGenerationUpdate ::
  "(string \<times> observationState) list \<Rightarrow> model_Generation \<Rightarrow> time \<Rightarrow> (string \<times> observationState) list" where
  "applyGenerationUpdate observations gen fallback =
     (let ident = coalesce (Gen_ID gen) (uuidFallback fallback);
          key = ''generation:'' @ ident;
          state = getOrCreateObservation observations key observationKindGeneration fallback;
          state = state\<lparr>
            state_id := ident,
            state_traceID := coalesce (state_traceID state) (Gen_TraceID gen),
            state_parentID := coalesce (state_parentID state) (Gen_ParentObservationID gen),
            state_name := coalesce (state_name state) (Gen_Name gen),
            state_startTime := coalesceTime (state_startTime state) (Gen_StartTime gen),
            state_endTime := coalesceTime (state_endTime state) (Gen_EndTime gen),
            state_output := (if Gen_Output gen \<noteq> AnyNil then Gen_Output gen else state_output state),
            state_metadata := (if Gen_Metadata gen \<noteq> AnyNil then Gen_Metadata gen else state_metadata state),
            state_level := (if Gen_Level gen \<noteq> [] then Gen_Level gen else state_level state),
            state_statusMessage :=
              (if Gen_StatusMessage gen \<noteq> [] then Gen_StatusMessage gen else state_statusMessage state),
            state_version := (if Gen_Version gen \<noteq> [] then Gen_Version gen else state_version state),
            state_model := (if Gen_Model gen \<noteq> [] then Gen_Model gen else state_model state),
            state_modelParameters :=
              (if Gen_ModelParameters gen \<noteq> AnyNil then Gen_ModelParameters gen
               else state_modelParameters state),
            state_usage := (if \<not> isZeroUsage (Gen_Usage gen) then Gen_Usage gen else state_usage state),
            state_promptName := (if Gen_PromptName gen \<noteq> [] then Gen_PromptName gen else state_promptName state),
            state_promptVersion :=
              (if Gen_PromptVersion gen \<noteq> 0 then Gen_PromptVersion gen else state_promptVersion state),
            state_hasPromptVersion :=
              (if Gen_PromptVersion gen \<noteq> 0 then True else state_hasPromptVersion state),
            state_completionStartTime :=
              coalesceTime (state_completionStartTime state) (Gen_CompletionStartTime gen)\<rparr>
      in AList.update key state observations)"

definition applySpanCreate ::
  "(string \<times> observationState) list \<Rightarrow> model_Span \<Rightarrow> time \<Rightarrow> (string \<times> observationState) list" where
  "applySpanCreate observations span fallback =
     (let ident = coalesce (Span_ID span) (uuidFallback fallback);
          key = ''span:'' @ ident;
          state = getOrCreateObservation observations key observationKindSpan fallback;
          state = state\<lparr>
            state_id := ident,
            state_traceID := coalesce (state_traceID state) (Span_TraceID span),
            state_parentID := coalesce (state_parentID state) (Span_ParentObservationID span),
            state_name := coalesce (state_name state) (Span_Name span),
            state_startTime := coalesceTime (state_startTime state) (Span_StartTime span),
            state_input := coalesceAny (state_input state) (Span_Input span),
            state_output := coalesceAny (state_output state) (Span_Output span),
            state_metadata := coalesceAny (state_metadata state) (Span_Metadata span),
            state_level := (if state_level state = [] then Span_Level span else state_level state),
            state_statusMessage := coalesce (state_statusMessage state) (Span_StatusMessage span),
            state_version := coalesce (state_version state) (Span_Version span)\<rparr>
      in AList.update key state observations)"

definition applySpanUpdate ::
  "(string \<times> observationState) list \<Rightarrow> model_Span \<Rightarrow> time \<Rightarrow> (string \<times> observationState) list" where
  "applySpanUpdate observations span fallback =
     (let ident = coalesce (Span_ID span) (uuidFallback fallback);
          key = ''span:'' @ ident;
          state = getOrCreateObservation observations key observationKindSpan fallback;
          state = state\<lparr>
            state_id := ident,
            state_traceID := coalesce (state_traceID state) (Span_TraceID span),
            state_parentID := coalesce (state_parentID state) (Span_ParentObservationID span),
            state_name := coalesce (state_name state) (Span_Name span),
            state_startTime := coalesceTime (state_startTime state) (Span_StartTime span),
            state_endTime := coalesceTime (state_endTime state) (Span_EndTime span),
            state_output := (if Span_Output span \<noteq> AnyNil then Span_Output span else state_output state),
            state_metadata := (if Span_Metadata span \<noteq> AnyNil then Span_Metadata span else state_metadata state),
            state_level := (if Span_Level span \<noteq> [] then Span_Level span else state_level state),
            state_statusMessage :=
              (if Span_StatusMessage span \<noteq> [] then Span_StatusMessage span else state_statusMessage state),
            state_version := (if Span_Version span \<noteq> [] then Span_Version span else state_version state)\<rparr>
      in AList.update key state observations)"

definition applyEventCreate ::
  "(string \<times> observationState) list \<Rightarrow> model_Event \<Rightarrow> time \<Rightarrow> (string \<times> observationState) list" where
  "applyEventCreate observations ev fallback =
     (let ident = coalesce (Event_ID ev) (uuidFallback fallback);
          key = ''event:'' @ ident;
          state = getOrCreateObservation observations key observationKindEvent fallback;
          state = state\<lparr>
            state_id := ident,
            state_traceID := coalesce (state_traceID state) (Event_TraceID ev),
            state_parentID := coalesce (state_parentID state) (Event_ParentObservationID ev),
            state_name := coalesce (state_name state) (Event_Name ev),
            state_startTime := coalesceTime (state_startTime state) (Event_StartTime ev),
            state_input := coalesceAny (state_input state) (Event_Input ev),
            state_output := coalesceAny (state_output state) (Event_Output ev),
            state_metadata := coalesceAny (state_metadata state) (Event_Metadata ev),
            state_level := (if state_level state = [] then Event_Level ev else state_level state),
            state_statusMessage := coalesce (state_statusMessage state) (Event_StatusMessage ev),
            state_version := coalesce (state_version state) (Event_Version ev)\<rparr>
      in AList.update key state observations)"

text \<open>
  One turn of the second loop of \<^verbatim>\<open>EncodeEvents\<close>: the \<^verbatim>\<open>switch\<close> on the type of the
  event. A body of another shape skips the event; a nil pointer of the right type is read
  by the \<^verbatim>\<open>apply...\<close> function (\<^verbatim>\<open>gen.ID\<close>, \<^verbatim>\<open>span.ID\<close>, \<^verbatim>\<open>ev.ID\<close>), which panics.
\<close>

definition applyEvent ::
  "(string \<times> observationState) list \<Rightarrow> model_IngestionEvent
     \<Rightarrow> failure + (string \<times> observationState) list" where
  "applyEvent observations event =
     (if Ingestion_Type event = IngestionEventTypeTraceCreate then
        (case asTrace (Ingestion_Body event) of
           (_, False) \<Rightarrow> Inr observations
         | (None, True) \<Rightarrow> Inl Panic
         | (Some trace, True) \<Rightarrow> Inr (applyTraceCreate observations event trace))
      else if Ingestion_Type event = IngestionEventTypeGenerationCreate then
        (case asGeneration (Ingestion_Body event) of
           (_, False) \<Rightarrow> Inr observations
         | (None, True) \<Rightarrow> Inl Panic
         | (Some gen, True) \<Rightarrow> Inr (applyGenerationCreate observations gen (Ingestion_Timestamp event)))
      else if Ingestion_Type event = IngestionEventTypeGenerationUpdate then
        (case asGeneration (Ingestion_Body event) of
           (_, False) \<Rightarrow> Inr observations
         | (None, True) \<Rightarrow> Inl Panic
         | (Some gen, True) \<Rightarrow> Inr (applyGenerationUpdate observations gen (Ingestion_Timestamp event)))
      else if Ingestion_Type event = IngestionEventTypeSpanCreate then
        (case asSpan (Ingestion_Body event) of
           (_, False) \<Rightarrow> Inr observations
         | (None, True) \<Rightarrow> Inl Panic
         | (Some span, True) \<Rightarrow> Inr (applySpanCreate observations span (Ingestion_Timestamp event)))
      else if Ingestion_Type event = IngestionEventTypeSpanUpdate then
        (case asSpan (Ingestion_Body event) of
           (_, False) \<Rightarrow> Inr observations
         | (None, True) \<Rightarrow> Inl Panic
         | (Some span, True) \<Rightarrow> Inr (applySpanUpdate observations span (Ingestion_Timestamp event)))
      else if Ingestion_Type event = IngestionEventTypeEventCreate then
        (case asEvent (Ingestion_Body event) of
           (_, False) \<Rightarrow> Inr observations
         | (None, True) \<Rightarrow> Inl Panic
         | (Some ev, True) \<Rightarrow> Inr (applyEventCreate observations ev (Ingestion_Timestamp event)))
      else Inr observations)"

fun observationsLoop ::
  "model_IngestionEvent list \<Rightarrow> (string \<times> observationState) list
     \<Rightarrow> failure + (string \<times> observationState) list" where
  "observationsLoop [] observations = Inr observations"
| "observationsLoop (event # events) observations =
     (case applyEvent observations event of
        Inl f \<Rightarrow> Inl f
      | Inr observations' \<Rightarrow> observationsLoop events observations')"

subsection \<open>Spans\<close>

text \<open>
  \<^verbatim>\<open>buildSpan\<close>; \<open>traceCtx\<close> is a pointer, \<open>None\<close> when nil. Its error result is always
  nil and is left out.
\<close>

definition buildSpan ::
  "runtime \<Rightarrow> (string list \<Rightarrow> string list) \<Rightarrow> observationState \<Rightarrow> traceContext option \<Rightarrow> tracev1_Span" where
  "buildSpan rt ord state traceCtx =
     (let traceID = state_traceID state;
          traceID = (case traceCtx of
                       Some c \<Rightarrow> if traceID = [] then ctx_traceID c else traceID
                     | None \<Rightarrow> traceID);
          traceID = (if traceID = [] then uuidFallback (state_fallbackTime state) else traceID);
          traceIDBytes = traceIDFromString (time_Now rt) traceID;
          traceIDBytes = (case traceCtx of
                            Some c \<Rightarrow> if ctx_traceID c = traceID then ctx_traceIDBytes c else traceIDBytes
                          | None \<Rightarrow> traceIDBytes);
          spanID = spanIDFromString (time_Now rt) (state_id state);
          spanID = (case traceCtx of
                      Some c \<Rightarrow> if state_kind state = observationKindTrace then ctx_rootSpanID c else spanID
                    | None \<Rightarrow> spanID);
          parentSpanID =
            (if state_kind state \<noteq> observationKindTrace then
               (if state_parentID state \<noteq> [] then spanIDFromString (time_Now rt) (state_parentID state)
                else (case traceCtx of Some c \<Rightarrow> ctx_rootSpanID c | None \<Rightarrow> []))
             else []);
          startTime = (case state_startTime state of Some t \<Rightarrow> t | None \<Rightarrow> state_fallbackTime state);
          endTime = (case state_endTime state of Some t \<Rightarrow> t | None \<Rightarrow> startTime);
          attrs = [];
          attrs = (case traceCtx of Some c \<Rightarrow> attrs @ ctx_propagateAttrs c | None \<Rightarrow> attrs);
          attrs = (case traceCtx of
                     Some c \<Rightarrow> if state_kind state = observationKindTrace then attrs @ ctx_rootAttrs c else attrs
                   | None \<Rightarrow> attrs);
          attrs = attrs @ observationAttributes rt ord state
      in \<lparr>TraceId = traceIDBytes,
          SpanId = spanID,
          ParentSpanId = parentSpanID,
          Name = coalesce (state_name state) (state_kind state),
          StartTimeUnixNano = UnixNano startTime,
          EndTimeUnixNano = UnixNano endTime,
          Attributes = attrs,
          Status = (if state_statusMessage state \<noteq> []
                    then Some \<lparr>Message = state_statusMessage state\<rparr> else None)\<rparr>)"

subsection \<open>\<^verbatim>\<open>EncodeEvents\<close>\<close>

text \<open>
  \<open>encodeSpans\<close> is the third loop of \<^verbatim>\<open>EncodeEvents\<close>, which builds one span for each
  state that \<^verbatim>\<open>range observations\<close> visits. \<open>encodeRequest\<close> is \<^verbatim>\<open>EncodeEvents\<close> up to
  the message it hands to \<^verbatim>\<open>proto.Marshal\<close>, and \<open>EncodeEvents\<close> the whole function.
\<close>

definition encodeSpans ::
  "runtime \<Rightarrow> (string \<rightharpoonup> traceContext) \<Rightarrow> (string \<times> observationState) list \<Rightarrow> tracev1_Span list" where
  "encodeSpans rt traceContexts observations =
     map (\<lambda>(key, obs). buildSpan rt (rangeOrder rt (StateMetadataAt key)) obs
                          (traceContexts (state_traceID obs)))
       (rangeMap (rangeOrder rt ObservationStates) observations)"

definition encodeRequest ::
  "runtime \<Rightarrow> model_IngestionEvent list \<Rightarrow> failure + coltrace_ExportTraceServiceRequest" where
  "encodeRequest rt events =
     (case traceContextsLoop rt 0 events Map.empty of
        Inl f \<Rightarrow> Inl f
      | Inr traceContexts \<Rightarrow>
          (case observationsLoop events [] of
             Inl f \<Rightarrow> Inl f
           | Inr observations \<Rightarrow>
               Inr \<lparr>ResourceSpans =
                 [\<lparr>Resource_Attributes = [attrString ''service.name'' instrumentationName],
                   ScopeSpans =
                     [\<lparr>Scope_Name = instrumentationName,
                       Spans = encodeSpans rt traceContexts observations\<rparr>]\<rparr>]\<rparr>))"

definition EncodeEvents :: "runtime \<Rightarrow> model_IngestionEvent list \<Rightarrow> failure + byte list" where
  "EncodeEvents rt events =
     (case encodeRequest rt events of
        Inl f \<Rightarrow> Inl f
      | Inr request \<Rightarrow>
          (case protoMarshal rt request of
             None \<Rightarrow> Inl MarshalError
           | Some payload \<Rightarrow> Inr payload))"

text \<open>The spans of a request built by \<open>encodeRequest\<close>.\<close>

definition requestSpans :: "coltrace_ExportTraceServiceRequest \<Rightarrow> tracev1_Span list" where
  "requestSpans request = concat (map Spans (concat (map ScopeSpans (ResourceSpans request))))"


section \<open>Notions used in the statements\<close>

text \<open>
  \<open>normalizedForm ident\<close> is the string \<open>normalizeHex\<close> tests for hex digits: the id with the
  surrounding white space trimmed, in lower case, without hyphens. \<open>hexDigits n s\<close> says that
  \<open>s\<close> is exactly \<open>n\<close> hex digits.
\<close>

definition normalizedForm :: "string \<Rightarrow> string" where
  "normalizedForm ident = stripHyphens (ToLower (TrimSpace ident))"

definition hexDigits :: "nat \<Rightarrow> string \<Rightarrow> bool" where
  "hexDigits n s = (length s = n \<and> list_all isLowerHex s)"

text \<open>
  The normalisation as the specification words it (`lowercase, strip hyphens'), for
  comparison with \<open>normalizedForm\<close>.
\<close>

definition specNormalizedForm :: "string \<Rightarrow> string" where
  "specNormalizedForm ident = stripHyphens (ToLower ident)"

text \<open>
  The entity an event is folded into, when the encoder recognizes the event: the kind and
  the resolved id. \<open>keyString\<close> is the key of the entity in the map \<^verbatim>\<open>observations\<close>.
\<close>

definition eventKey :: "model_IngestionEvent \<Rightarrow> (observationKind \<times> string) option" where
  "eventKey event =
     (if Ingestion_Type event = IngestionEventTypeTraceCreate then
        (case asTrace (Ingestion_Body event) of
           (Some trace, True) \<Rightarrow> Some (observationKindTrace, resolveTraceID event trace)
         | _ \<Rightarrow> None)
      else if Ingestion_Type event = IngestionEventTypeGenerationCreate
            \<or> Ingestion_Type event = IngestionEventTypeGenerationUpdate then
        (case asGeneration (Ingestion_Body event) of
           (Some gen, True) \<Rightarrow>
             Some (observationKindGeneration, coalesce (Gen_ID gen) (uuidFallback (Ingestion_Timestamp event)))
         | _ \<Rightarrow> None)
      else if Ingestion_Type event = IngestionEventTypeSpanCreate
            \<or> Ingestion_Type event = IngestionEventTypeSpanUpdate then
        (case asSpan (Ingestion_Body event) of
           (Some span, True) \<Rightarrow>
             Some (observationKindSpan, coalesce (Span_ID span) (uuidFallback (Ingestion_Timestamp event)))
         | _ \<Rightarrow> None)
      else if Ingestion_Type event = IngestionEventTypeEventCreate then
        (case asEvent (Ingestion_Body event) of
           (Some ev, True) \<Rightarrow>
             Some (observationKindEvent, coalesce (Event_ID ev) (uuidFallback (Ingestion_Timestamp event)))
         | _ \<Rightarrow> None)
      else None)"

definition keyString :: "observationKind \<times> string \<Rightarrow> string" where
  "keyString k = fst k @ '':'' @ snd k"

text \<open>An event of a recognized type whose body is a nil pointer to the payload of that type.\<close>

definition nilPayload :: "model_IngestionEvent \<Rightarrow> bool" where
  "nilPayload event =
     (Ingestion_Type event = IngestionEventTypeTraceCreate \<and> Ingestion_Body event = TracePtr None
      \<or> (Ingestion_Type event = IngestionEventTypeGenerationCreate
          \<or> Ingestion_Type event = IngestionEventTypeGenerationUpdate)
         \<and> Ingestion_Body event = GenerationPtr None
      \<or> (Ingestion_Type event = IngestionEventTypeSpanCreate
          \<or> Ingestion_Type event = IngestionEventTypeSpanUpdate)
         \<and> Ingestion_Body event = SpanPtr None
      \<or> Ingestion_Type event = IngestionEventTypeEventCreate \<and> Ingestion_Body event = EventPtr None)"

text \<open>The usage stored under a key; a state not yet created has the zero usage.\<close>

definition storedUsage :: "(string \<times> observationState) list \<Rightarrow> string \<Rightarrow> model_Usage" where
  "storedUsage observations key =
     (case map_of observations key of Some state \<Rightarrow> state_usage state | None \<Rightarrow> zeroUsage)"

definition generationKey :: "model_Generation \<Rightarrow> time \<Rightarrow> string" where
  "generationKey gen fallback = ''generation:'' @ coalesce (Gen_ID gen) (uuidFallback fallback)"

text \<open>The payloads of the trace-create events of a batch that resolve to a trace id, in order.\<close>

definition traceCreate :: "model_IngestionEvent \<Rightarrow> (string \<times> model_Trace) option" where
  "traceCreate event =
     (if Ingestion_Type event = IngestionEventTypeTraceCreate then
        (case asTrace (Ingestion_Body event) of
           (Some trace, True) \<Rightarrow> Some (resolveTraceID event trace, trace)
         | _ \<Rightarrow> None)
      else None)"

definition traceCreatesFor :: "string \<Rightarrow> model_IngestionEvent list \<Rightarrow> model_Trace list" where
  "traceCreatesFor traceID events =
     map snd (filter (\<lambda>kt. fst kt = traceID) (List.map_filter traceCreate events))"




subsection \<open>Zero values and sample inputs\<close>

definition zeroTrace :: model_Trace where
  "zeroTrace = \<lparr>Trace_ID = [], Trace_Timestamp = None, Trace_Name = [], Trace_UserID = [],
     Trace_Input = AnyNil, Trace_Output = AnyNil, Trace_SessionID = [], Trace_Release = [],
     Trace_Version = [], Trace_Metadata = AnyNil, Trace_Tags = [], Trace_Public = False\<rparr>"

definition zeroGeneration :: model_Generation where
  "zeroGeneration = \<lparr>Gen_TraceID = [], Gen_Name = [], Gen_StartTime = None, Gen_Metadata = AnyNil,
     Gen_Input = AnyNil, Gen_Output = AnyNil, Gen_Level = [], Gen_StatusMessage = [],
     Gen_ParentObservationID = [], Gen_Version = [], Gen_ID = [], Gen_EndTime = None,
     Gen_CompletionStartTime = None, Gen_Model = [], Gen_ModelParameters = AnyNil,
     Gen_Usage = zeroUsage, Gen_PromptName = [], Gen_PromptVersion = 0\<rparr>"

definition zeroSpan :: model_Span where
  "zeroSpan = \<lparr>Span_TraceID = [], Span_Name = [], Span_StartTime = None, Span_Metadata = AnyNil,
     Span_Input = AnyNil, Span_Output = AnyNil, Span_Level = [], Span_StatusMessage = [],
     Span_ParentObservationID = [], Span_Version = [], Span_ID = [], Span_EndTime = None\<rparr>"

definition zeroEvent :: model_Event where
  "zeroEvent = \<lparr>Event_TraceID = [], Event_Name = [], Event_StartTime = None, Event_Metadata = AnyNil,
     Event_Input = AnyNil, Event_Output = AnyNil, Event_Level = [], Event_StatusMessage = [],
     Event_ParentObservationID = [], Event_Version = [], Event_ID = []\<rparr>"

definition ingestionEvent :: "string \<Rightarrow> string \<Rightarrow> time \<Rightarrow> body \<Rightarrow> model_IngestionEvent" where
  "ingestionEvent typ ident ts b =
     \<lparr>Ingestion_Type = typ, Ingestion_ID = ident, Ingestion_Timestamp = ts,
      Ingestion_Metadata = AnyNil, Ingestion_Body = b\<rparr>"

text \<open>
  A runtime for the sample inputs: \<open>ord\<close> is the order its \<^verbatim>\<open>range\<close> loops take. The
  texts of the JSON and time renderings play no part in the samples.
\<close>

definition sampleRuntime :: "(string list \<Rightarrow> string list) \<Rightarrow> runtime" where
  "sampleRuntime ord =
     \<lparr>time_Now = 0, jsonText = (\<lambda>v. ''json''), formatRFC3339Nano = (\<lambda>t. ''time''),
      protoMarshal = (\<lambda>r. None), rangeOrder = (\<lambda>s. ord)\<rparr>"


subsection \<open>An invariant of the aggregation\<close>

text \<open>
  Every state the second loop stores has one of the four kinds and a non-empty id, lies
  under the key made of its kind and id, and, when it is a trace, has its public flag set
  and its own id as trace id.
\<close>

definition stateInvariant :: "string \<Rightarrow> observationState \<Rightarrow> bool" where
  "stateInvariant key state =
     ((state_kind state = observationKindTrace \<or> state_kind state = observationKindSpan
       \<or> state_kind state = observationKindGeneration \<or> state_kind state = observationKindEvent)
      \<and> state_id state \<noteq> []
      \<and> key = keyString (state_kind state, state_id state)
      \<and> (state_kind state = observationKindTrace \<longrightarrow>
            state_public state \<noteq> None \<and> state_traceID state = state_id state))"

definition statesInvariant :: "(string \<times> observationState) list \<Rightarrow> bool" where
  "statesInvariant observations = (\<forall>(key, state) \<in> set observations. stateInvariant key state)"


subsection \<open>The attributes of an observation, in three parts\<close>



definition valuesAt :: "string \<Rightarrow> commonv1_KeyValue option list \<Rightarrow> commonv1_AnyValue list" where
  "valuesAt k attrs = map Value (filter (\<lambda>kv. Key kv = k) (List.map_filter (\<lambda>a. a) attrs))"

subsection \<open>Two runs of the encoder\<close>






section \<open>Properties of the identifier deriver\<close>

subsection \<open>Lengths\<close>

lemma length_sha_round: "length (sha_round s kw) = length s"
  by (cases "(s, kw)" rule: sha_round.cases) (simp_all add: Let_def)

lemma length_foldl_sha_round: "length (foldl sha_round s kws) = length s"
  by (induction kws arbitrary: s) (simp_all add: length_sha_round)

lemma length_compress: "length (compress hs blk) = length hs"
  by (simp add: compress_def Let_def length_foldl_sha_round)

lemma length_foldl_compress: "length (foldl compress hs blks) = length hs"
  by (induction blks arbitrary: hs) (simp_all add: length_compress)

lemma length_concat_word_bytes: "length (concat (map word_bytes ws)) = 4 * length ws"
  by (induction ws) (simp_all add: word_bytes_def)

text \<open>\<^verbatim>\<open>Sum256\<close> returns a \<^verbatim>\<open>[32]byte\<close>.\<close>

lemma length_sha256: "length (sha256 m) = 32"
  by (simp add: sha256_def length_concat_word_bytes length_foldl_compress H256_def)

lemma hex_DecodeString_length: "hex_DecodeString s = Some bs \<Longrightarrow> length s = 2 * length bs"
  by (induction s arbitrary: bs rule: hex_DecodeString.induct) (auto split: option.splits)

lemma length_randomBytes: "n \<le> 32 \<Longrightarrow> length (randomBytes n ts) = n"
  by (simp add: randomBytes_def Let_def length_sha256)

text \<open>
  C9. Identifier derivation is total: for every string, the empty one and those that are
  no hex included, \<open>traceIDFromString\<close> returns exactly 16 bytes and \<open>spanIDFromString\<close>
  exactly 8 bytes. The functions have no error result, and a result of the full length
  means that no slice expression in them was out of range.
\<close>

theorem deriver_total:
  "length (traceIDFromString now ident) = 16 \<and> length (spanIDFromString now ident) = 8"
  by (auto simp: traceIDFromString_def spanIDFromString_def Let_def length_sha256 length_randomBytes
      split: option.splits if_splits dest!: hex_DecodeString_length)

theorem deriver_total_witness:
  "length (traceIDFromString 0 ''not-hex'') = 16 \<and> length (spanIDFromString 0 ''not-hex'') = 8"
  by (rule deriver_total)

subsection \<open>The empty id\<close>

lemma showInt_16: "showInt 16 = ''16''" and showInt_8: "showInt 8 = ''8''"
  by code_simp+

text \<open>
  C2, as the code has it. Given the empty id, the deriver reads the clock itself and
  synthesizes the id from a digest of that reading: the first 16 (8) bytes of the SHA-256
  of the decimal \<^verbatim>\<open>UnixNano\<close> of the reading followed by \<^verbatim>\<open>:16\<close> (\<^verbatim>\<open>:8\<close>). The id has
  the fixed width, and it is the same for two calls only as far as they read the same
  clock value.
\<close>

theorem empty_id_fallback:
  "traceIDFromString now [] = take 16 (sha256 (bytes (showInt (sint (UnixNano now)) @ '':16'')))
   \<and> spanIDFromString now [] = take 8 (sha256 (bytes (showInt (sint (UnixNano now)) @ '':8'')))
   \<and> length (traceIDFromString now []) = 16 \<and> length (spanIDFromString now []) = 8"
  using showInt_16 showInt_8
  by (simp add: traceIDFromString_def spanIDFromString_def randomBytes_def Let_def length_sha256)

theorem empty_id_fallback_witness:
  "traceIDFromString 1700000000000000000 [] =
     take 16 (sha256 (bytes (showInt (sint (UnixNano 1700000000000000000)) @ '':16'')))
   \<and> spanIDFromString 1700000000000000000 [] =
     take 8 (sha256 (bytes (showInt (sint (UnixNano 1700000000000000000)) @ '':8'')))
   \<and> length (traceIDFromString 1700000000000000000 []) = 16
   \<and> length (spanIDFromString 1700000000000000000 []) = 8"
  by (rule empty_id_fallback)

lemma sha256_clock_0:
  "sha256 (bytes ''0:16'') =
    [0xC5, 0x84, 0xD8, 0x4A, 0x8C, 0xE0, 0x5B, 0xAD, 0x8D, 0x02, 0xAE, 0x68, 0x7D, 0x8F, 0x88, 0x78,
     0x11, 0xAA, 0xAE, 0x82, 0x25, 0xA7, 0x0F, 0x83, 0x2D, 0x4F, 0xBE, 0xCB, 0x26, 0x95, 0x88, 0x59]"
  by code_simp

lemma sha256_clock_1:
  "sha256 (bytes ''1:16'') =
    [0xA8, 0xAA, 0x5F, 0x5B, 0x8B, 0x00, 0xB9, 0x93, 0xBB, 0x07, 0xBC, 0x3A, 0xC5, 0xB1, 0xBF, 0x8F,
     0x7D, 0x80, 0xF2, 0x6E, 0x08, 0xE9, 0xF2, 0x8C, 0x71, 0x75, 0xF0, 0x3E, 0x89, 0x14, 0x1A, 0xDB]"
  by code_simp

lemma showInt_clock: "showInt (sint (UnixNano 0)) = ''0''" "showInt (sint (UnixNano 1)) = ''1''"
  by code_simp+

text \<open>
  The claim C2 as worded has the caller supply the timestamp, so that a caller could
  repeat a call and get the id again. The deriver takes the id alone: the same call, with
  the empty id, returns one id when the clock reads 0 and another when it reads 1.
\<close>

theorem empty_id_clock_counterexample:
  "traceIDFromString 0 [] \<noteq> traceIDFromString 1 []"
  using showInt_16
  by (simp add: traceIDFromString_def randomBytes_def Let_def showInt_clock sha256_clock_0 sha256_clock_1)

subsection \<open>Hex ids and all other ids\<close>

lemma normalizeHex_eq:
  "normalizeHex ident = (if list_all isLowerHex (normalizedForm ident) then normalizedForm ident else [])"
  by (simp add: normalizeHex_def normalizedForm_def Let_def)

lemma normalizedForm_Nil: "normalizedForm [] = []"
  by (simp add: normalizedForm_def TrimSpace_def ToLower_def stripHyphens_def)

lemma fromHexChar_lower:
  assumes "isLowerHex c"
  shows "\<exists>x. x < 16 \<and> fromHexChar c = Some (of_nat x) \<and> hexDigit x = c"
proof -
  let ?n = "of_char c :: nat"
  from assms have "48 \<le> ?n \<and> ?n \<le> 57 \<or> 97 \<le> ?n \<and> ?n \<le> 102"
    by (auto simp: isLowerHex_def Let_def)
  then show ?thesis
  proof
    assume h: "48 \<le> ?n \<and> ?n \<le> 57"
    then have "hexDigit (?n - 48) = char_of ?n" by (auto simp: hexDigit_def)
    with h show ?thesis
      by (intro exI[of _ "?n - 48"]) (auto simp: fromHexChar_def Let_def)
  next
    assume h: "97 \<le> ?n \<and> ?n \<le> 102"
    then have "hexDigit (?n - 87) = char_of ?n" by (auto simp: hexDigit_def)
    with h show ?thesis
      by (intro exI[of _ "?n - 87"]) (auto simp: fromHexChar_def Let_def)
  qed
qed

lemma hex_byte_all:
  "\<forall>x\<in>set [0..<16]. \<forall>y\<in>set [0..<16]. unat (push_bit 4 (of_nat x :: byte) OR of_nat y) = 16 * x + y"
  by code_simp

lemma hex_byte:
  assumes "x < 16" "y < 16"
  shows "unat (push_bit 4 (of_nat x :: byte) OR of_nat y) = 16 * x + y"
  using assms hex_byte_all by simp

text \<open>Decoding an even number of lower-case hex digits succeeds, and encoding gives them back.\<close>

lemma hex_round_trip:
  "list_all isLowerHex s \<Longrightarrow> even (length s) \<Longrightarrow>
   \<exists>bs. hex_DecodeString s = Some bs \<and> hex_EncodeToString bs = s"
proof (induction s rule: hex_DecodeString.induct)
  case 1
  show ?case by (simp add: hex_EncodeToString_def)
next
  case (2 p)
  then show ?case by simp
next
  case (3 p q rest)
  from 3(2) obtain x where x: "x < 16" "fromHexChar p = Some (of_nat x)" "hexDigit x = p"
    using fromHexChar_lower by fastforce
  from 3(2) obtain y where y: "y < 16" "fromHexChar q = Some (of_nat y)" "hexDigit y = q"
    using fromHexChar_lower by fastforce
  from 3(2,3) have "list_all isLowerHex rest" "even (length rest)" by simp_all
  with 3(1)[OF x(2) y(2)] obtain bs where bs: "hex_DecodeString rest = Some bs" "hex_EncodeToString bs = rest"
    by blast
  have "unat (push_bit 4 (of_nat x :: byte) OR of_nat y) = 16 * x + y"
    using x(1) y(1) by (rule hex_byte)
  with x y bs show ?case
    by (simp add: hex_EncodeToString_def)
qed

lemma decode_normalized:
  assumes "hexDigits n (normalizedForm ident)" "even n"
  shows "\<exists>bs. hex_DecodeString (normalizeHex ident) = Some bs \<and> hex_EncodeToString bs = normalizedForm ident
     \<and> normalizeHex ident = normalizedForm ident \<and> 2 * length bs = n"
proof -
  from assms have nf: "normalizeHex ident = normalizedForm ident"
    by (simp add: normalizeHex_eq hexDigits_def)
  from assms obtain bs where bs: "hex_DecodeString (normalizedForm ident) = Some bs"
      "hex_EncodeToString bs = normalizedForm ident"
    using hex_round_trip[of "normalizedForm ident"] by (auto simp: hexDigits_def)
  from bs(1) assms have "2 * length bs = n"
    by (auto dest: hex_DecodeString_length simp: hexDigits_def)
  with nf bs show ?thesis by simp
qed

lemma length_normalizeHex:
  "\<not> hexDigits n (normalizedForm ident) \<Longrightarrow> 0 < n \<Longrightarrow> length (normalizeHex ident) \<noteq> n"
  by (auto simp: normalizeHex_eq hexDigits_def)

lemma hexDigits_nonempty: "hexDigits n (normalizedForm ident) \<Longrightarrow> 0 < n \<Longrightarrow> ident \<noteq> []"
  using normalizedForm_Nil by (auto simp: hexDigits_def)

text \<open>Concrete ids: a UUID in the usual writing, and a hex id with a leading space.\<close>

lemma normalizedForm_uuid:
  "normalizedForm ''01234567-89AB-CDEF-0123-456789abcdef'' = ''0123456789abcdef0123456789abcdef''"
  by code_simp

lemma normalizedForm_span16: "normalizedForm ''00F0-67AA-0BA9-02b7'' = ''00f067aa0ba902b7''"
  by code_simp

lemma normalizedForm_padded_id:
  "normalizedForm '' 0123456789abcdef0123456789abcdef'' = ''0123456789abcdef0123456789abcdef''"
  by code_simp

lemma normalizedForm_plain: "normalizedForm ''trace-enc-001'' = ''traceenc001''"
  by code_simp

lemma hexDigits_32: "hexDigits 32 ''0123456789abcdef0123456789abcdef''"
  and hexDigits_not_16: "\<not> hexDigits 16 ''0123456789abcdef0123456789abcdef''"
  and hexDigits_16: "hexDigits 16 ''00f067aa0ba902b7''"
  and hexDigits_plain: "\<not> hexDigits 32 ''traceenc001''" "\<not> hexDigits 16 ''traceenc001''"
  by code_simp+

lemma decode_32:
  "hex_DecodeString ''0123456789abcdef0123456789abcdef'' =
     Some [0x01, 0x23, 0x45, 0x67, 0x89, 0xAB, 0xCD, 0xEF, 0x01, 0x23, 0x45, 0x67, 0x89, 0xAB, 0xCD, 0xEF]"
  by code_simp

lemma decode_16: "hex_DecodeString ''00f067aa0ba902b7'' = Some [0x00, 0xF0, 0x67, 0xAA, 0x0B, 0xA9, 0x02, 0xB7]"
  by code_simp

lemma sha256_padded_id:
  "sha256 (bytes '' 0123456789abcdef0123456789abcdef'') =
    [0xFC, 0xDF, 0x75, 0x45, 0x0E, 0xFE, 0x31, 0x4D, 0x59, 0x33, 0x8B, 0x4A, 0xCC, 0xCE, 0xF1, 0x7E,
     0xEB, 0x32, 0xAD, 0xE4, 0x75, 0x6D, 0x36, 0x98, 0xF4, 0xF1, 0x55, 0x08, 0x68, 0x34, 0xBB, 0x79]"
  by code_simp

lemma specNormalizedForm_padded_id:
  "specNormalizedForm '' 0123456789abcdef0123456789abcdef'' = '' 0123456789abcdef0123456789abcdef''"
  by code_simp

lemma hexDigits_padded_id:
  "\<not> hexDigits 32 '' 0123456789abcdef0123456789abcdef''"
  "\<not> hexDigits 16 '' 0123456789abcdef0123456789abcdef''"
  by code_simp+

text \<open>
  C3, as the code has it. When the id, with the surrounding white space trimmed, in lower
  case and without hyphens, is exactly 32 hex digits, \<open>traceIDFromString\<close> returns the 16
  bytes these digits decode to, and encoding the result gives the digits back (round
  trip). For every other non-empty id it returns the first 16 bytes of the SHA-256 of the
  id as given.
\<close>

theorem traceID_round_trip:
  "(hexDigits 32 (normalizedForm ident) \<longrightarrow>
      hex_DecodeString (normalizedForm ident) = Some (traceIDFromString now ident)
      \<and> hex_EncodeToString (traceIDFromString now ident) = normalizedForm ident
      \<and> length (traceIDFromString now ident) = 16)
   \<and> (ident \<noteq> [] \<and> \<not> hexDigits 32 (normalizedForm ident) \<longrightarrow>
      traceIDFromString now ident = take 16 (sha256 (bytes ident)))"
proof (intro conjI impI)
  assume h: "hexDigits 32 (normalizedForm ident)"
  then have ne: "ident \<noteq> []" by (simp add: hexDigits_nonempty)
  from decode_normalized[OF h] obtain bs where bs: "hex_DecodeString (normalizeHex ident) = Some bs"
    "hex_EncodeToString bs = normalizedForm ident" "normalizeHex ident = normalizedForm ident"
    "2 * length bs = 32" by auto
  from h bs(3) have len: "length (normalizeHex ident) = 32" by (simp add: hexDigits_def)
  from ne len bs(1) have t: "traceIDFromString now ident = bs"
    by (simp add: traceIDFromString_def Let_def)
  from t bs show "hex_DecodeString (normalizedForm ident) = Some (traceIDFromString now ident)" by simp
  from t bs show "hex_EncodeToString (traceIDFromString now ident) = normalizedForm ident" by simp
  from t bs show "length (traceIDFromString now ident) = 16" by simp
next
  assume "ident \<noteq> [] \<and> \<not> hexDigits 32 (normalizedForm ident)"
  then show "traceIDFromString now ident = take 16 (sha256 (bytes ident))"
    using length_normalizeHex[of 32 ident] by (simp add: traceIDFromString_def Let_def)
qed

theorem traceID_round_trip_witness:
  "hexDigits 32 (normalizedForm ''01234567-89AB-CDEF-0123-456789abcdef'')
   \<and> traceIDFromString 0 ''01234567-89AB-CDEF-0123-456789abcdef'' =
       [0x01, 0x23, 0x45, 0x67, 0x89, 0xAB, 0xCD, 0xEF, 0x01, 0x23, 0x45, 0x67, 0x89, 0xAB, 0xCD, 0xEF]
   \<and> hex_EncodeToString (traceIDFromString 0 ''01234567-89AB-CDEF-0123-456789abcdef'') =
       ''0123456789abcdef0123456789abcdef''
   \<and> ''trace-enc-001'' \<noteq> []
   \<and> \<not> hexDigits 32 (normalizedForm ''trace-enc-001'')
   \<and> traceIDFromString 0 ''trace-enc-001'' = take 16 (sha256 (bytes ''trace-enc-001''))"
  using traceID_round_trip[of "''01234567-89AB-CDEF-0123-456789abcdef''" 0]
    traceID_round_trip[of "''trace-enc-001''" 0]
  by (simp add: normalizedForm_uuid normalizedForm_plain hexDigits_32 hexDigits_plain decode_32
      del: hex_DecodeString.simps)

text \<open>
  The claim C3 as worded takes the normalized form to be the id in lower case without
  hyphens. An id with a leading space is then no 32 hex digits, and the claim asks for the
  digest of the id; the code trims the space and decodes the 32 digits.
\<close>

theorem traceID_untrimmed_counterexample:
  "'' 0123456789abcdef0123456789abcdef'' \<noteq> []
   \<and> \<not> hexDigits 32 (specNormalizedForm '' 0123456789abcdef0123456789abcdef'')
   \<and> traceIDFromString 0 '' 0123456789abcdef0123456789abcdef''
       \<noteq> take 16 (sha256 (bytes '' 0123456789abcdef0123456789abcdef''))"
proof -
  have "hexDigits 32 (normalizedForm '' 0123456789abcdef0123456789abcdef'')"
    by (simp add: normalizedForm_padded_id hexDigits_32)
  then have "hex_DecodeString ''0123456789abcdef0123456789abcdef'' =
      Some (traceIDFromString 0 '' 0123456789abcdef0123456789abcdef'')"
    using traceID_round_trip[of "'' 0123456789abcdef0123456789abcdef''" 0]
    by (simp add: normalizedForm_padded_id)
  then have "traceIDFromString 0 '' 0123456789abcdef0123456789abcdef'' =
     [0x01, 0x23, 0x45, 0x67, 0x89, 0xAB, 0xCD, 0xEF, 0x01, 0x23, 0x45, 0x67, 0x89, 0xAB, 0xCD, 0xEF]"
    by (simp add: decode_32 del: hex_DecodeString.simps)
  then show ?thesis
    by (simp add: sha256_padded_id specNormalizedForm_padded_id hexDigits_padded_id)
qed

text \<open>
  C4, as the code has it. With the normalized form of C3: when it is exactly 16 hex digits,
  \<open>spanIDFromString\<close> returns the 8 bytes they decode to; when it is exactly 32 hex digits,
  the first 8 of the 16 bytes they decode to; for every other non-empty id, the first 8
  bytes of the SHA-256 of the id as given.
\<close>

theorem spanID_cases:
  "(hexDigits 16 (normalizedForm ident) \<longrightarrow>
      hex_DecodeString (normalizedForm ident) = Some (spanIDFromString now ident)
      \<and> length (spanIDFromString now ident) = 8)
   \<and> (hexDigits 32 (normalizedForm ident) \<longrightarrow>
      (\<exists>decoded. hex_DecodeString (normalizedForm ident) = Some decoded \<and> length decoded = 16
         \<and> spanIDFromString now ident = take 8 decoded))
   \<and> (ident \<noteq> [] \<and> \<not> hexDigits 16 (normalizedForm ident) \<and> \<not> hexDigits 32 (normalizedForm ident) \<longrightarrow>
      spanIDFromString now ident = take 8 (sha256 (bytes ident)))"
proof (intro conjI impI)
  assume h: "hexDigits 16 (normalizedForm ident)"
  then have ne: "ident \<noteq> []" by (simp add: hexDigits_nonempty)
  from decode_normalized[OF h] obtain bs where bs: "hex_DecodeString (normalizeHex ident) = Some bs"
    "normalizeHex ident = normalizedForm ident" "2 * length bs = 16" by auto
  from h bs(2) have len: "length (normalizeHex ident) = 16" by (simp add: hexDigits_def)
  from ne len bs(1) have t: "spanIDFromString now ident = bs"
    by (simp add: spanIDFromString_def Let_def)
  from t bs show "hex_DecodeString (normalizedForm ident) = Some (spanIDFromString now ident)" by simp
  from t bs show "length (spanIDFromString now ident) = 8" by simp
next
  assume h: "hexDigits 32 (normalizedForm ident)"
  then have ne: "ident \<noteq> []" by (simp add: hexDigits_nonempty)
  from decode_normalized[OF h] obtain bs where bs: "hex_DecodeString (normalizeHex ident) = Some bs"
    "normalizeHex ident = normalizedForm ident" "2 * length bs = 32" by auto
  from h bs(2) have len: "length (normalizeHex ident) = 32" by (simp add: hexDigits_def)
  from ne len bs(1) have "spanIDFromString now ident = take 8 bs"
    by (simp add: spanIDFromString_def Let_def)
  with bs show "\<exists>decoded. hex_DecodeString (normalizedForm ident) = Some decoded \<and> length decoded = 16
         \<and> spanIDFromString now ident = take 8 decoded" by simp
next
  assume "ident \<noteq> [] \<and> \<not> hexDigits 16 (normalizedForm ident) \<and> \<not> hexDigits 32 (normalizedForm ident)"
  then show "spanIDFromString now ident = take 8 (sha256 (bytes ident))"
    using length_normalizeHex[of 32 ident] length_normalizeHex[of 16 ident]
    by (simp add: spanIDFromString_def Let_def)
qed

theorem spanID_cases_witness:
  "hexDigits 16 (normalizedForm ''00F0-67AA-0BA9-02b7'')
   \<and> spanIDFromString 0 ''00F0-67AA-0BA9-02b7'' = [0x00, 0xF0, 0x67, 0xAA, 0x0B, 0xA9, 0x02, 0xB7]
   \<and> hexDigits 32 (normalizedForm ''01234567-89AB-CDEF-0123-456789abcdef'')
   \<and> spanIDFromString 0 ''01234567-89AB-CDEF-0123-456789abcdef'' =
       [0x01, 0x23, 0x45, 0x67, 0x89, 0xAB, 0xCD, 0xEF]
   \<and> ''trace-enc-001'' \<noteq> []
   \<and> \<not> hexDigits 16 (normalizedForm ''trace-enc-001'')
   \<and> \<not> hexDigits 32 (normalizedForm ''trace-enc-001'')
   \<and> spanIDFromString 0 ''trace-enc-001'' = take 8 (sha256 (bytes ''trace-enc-001''))"
  using spanID_cases[of "''00F0-67AA-0BA9-02b7''" 0]
    spanID_cases[of "''01234567-89AB-CDEF-0123-456789abcdef''" 0]
    spanID_cases[of "''trace-enc-001''" 0]
  by (simp add: normalizedForm_uuid normalizedForm_plain normalizedForm_span16 hexDigits_32 hexDigits_16
      hexDigits_plain decode_32 decode_16 del: hex_DecodeString.simps)

text \<open>
  The claim C4 as worded, at the id of the C3 counterexample: in lower case and without
  hyphens it is neither 16 nor 32 hex digits, so the claim asks for the digest; the code
  returns the first 8 bytes the trimmed digits decode to.
\<close>

theorem spanID_untrimmed_counterexample:
  "'' 0123456789abcdef0123456789abcdef'' \<noteq> []
   \<and> \<not> hexDigits 16 (specNormalizedForm '' 0123456789abcdef0123456789abcdef'')
   \<and> \<not> hexDigits 32 (specNormalizedForm '' 0123456789abcdef0123456789abcdef'')
   \<and> spanIDFromString 0 '' 0123456789abcdef0123456789abcdef''
       \<noteq> take 8 (sha256 (bytes '' 0123456789abcdef0123456789abcdef''))"
proof -
  have "hexDigits 32 (normalizedForm '' 0123456789abcdef0123456789abcdef'')"
    by (simp add: normalizedForm_padded_id hexDigits_32)
  then have "spanIDFromString 0 '' 0123456789abcdef0123456789abcdef'' =
     [0x01, 0x23, 0x45, 0x67, 0x89, 0xAB, 0xCD, 0xEF]"
    using spanID_cases[of "'' 0123456789abcdef0123456789abcdef''" 0]
    by (simp add: normalizedForm_padded_id decode_32 del: hex_DecodeString.simps)
  then show ?thesis
    by (simp add: sha256_padded_id specNormalizedForm_padded_id hexDigits_padded_id)
qed

section \<open>Properties of the aggregation and of the spans\<close>

lemma isZeroUsage_zeroUsage: "isZeroUsage zeroUsage"
  by (simp add: isZeroUsage_def zeroUsage_def float64_is_zero_def)

text \<open>
  C7. Usage merging is asymmetric. \<open>applyGenerationCreate\<close> assigns the usage of the payload
  only if the usage stored for the generation is zero, so the first non-zero usage wins
  among creates; \<open>applyGenerationUpdate\<close> replaces the stored usage by a non-zero usage of
  the payload whatever was stored, and keeps the stored usage when the payload's is zero.
\<close>

theorem usage_merge:
  "storedUsage (applyGenerationCreate observations gen ts) (generationKey gen ts) =
     (if isZeroUsage (storedUsage observations (generationKey gen ts)) then Gen_Usage gen
      else storedUsage observations (generationKey gen ts))
   \<and> storedUsage (applyGenerationUpdate observations gen ts) (generationKey gen ts) =
     (if \<not> isZeroUsage (Gen_Usage gen) then Gen_Usage gen
      else storedUsage observations (generationKey gen ts))"
  by (simp add: storedUsage_def generationKey_def applyGenerationCreate_def applyGenerationUpdate_def
      getOrCreateObservation_def newObservationState_def Let_def update_conv' isZeroUsage_zeroUsage
      split: option.splits)


lemma generationKey_id: "Gen_ID gen \<noteq> [] \<Longrightarrow> generationKey gen ts = ''generation:'' @ Gen_ID gen"
  by (simp add: generationKey_def coalesce_def)

theorem usage_merge_witness:
  "storedUsage
     (applyGenerationCreate [] (zeroGeneration\<lparr>Gen_ID := ''g1'', Gen_Usage := zeroUsage\<lparr>Usage_Total := 5\<rparr>\<rparr>) 0)
     ''generation:g1'' = zeroUsage\<lparr>Usage_Total := 5\<rparr>
   \<and> storedUsage
     (applyGenerationCreate
        (applyGenerationCreate [] (zeroGeneration\<lparr>Gen_ID := ''g1'', Gen_Usage := zeroUsage\<lparr>Usage_Total := 5\<rparr>\<rparr>) 0)
        (zeroGeneration\<lparr>Gen_ID := ''g1'', Gen_Usage := zeroUsage\<lparr>Usage_Total := 7\<rparr>\<rparr>) 0)
     ''generation:g1'' = zeroUsage\<lparr>Usage_Total := 5\<rparr>
   \<and> storedUsage
     (applyGenerationUpdate
        (applyGenerationCreate [] (zeroGeneration\<lparr>Gen_ID := ''g1'', Gen_Usage := zeroUsage\<lparr>Usage_Total := 5\<rparr>\<rparr>) 0)
        (zeroGeneration\<lparr>Gen_ID := ''g1'', Gen_Usage := zeroUsage\<lparr>Usage_Total := 7\<rparr>\<rparr>) 0)
     ''generation:g1'' = zeroUsage\<lparr>Usage_Total := 7\<rparr>
   \<and> storedUsage
     (applyGenerationUpdate
        (applyGenerationCreate [] (zeroGeneration\<lparr>Gen_ID := ''g1'', Gen_Usage := zeroUsage\<lparr>Usage_Total := 5\<rparr>\<rparr>) 0)
        (zeroGeneration\<lparr>Gen_ID := ''g1''\<rparr>) 0)
     ''generation:g1'' = zeroUsage\<lparr>Usage_Total := 5\<rparr>"
proof -
  let ?g5 = "zeroGeneration\<lparr>Gen_ID := ''g1'', Gen_Usage := zeroUsage\<lparr>Usage_Total := 5\<rparr>\<rparr>"
  let ?g7 = "zeroGeneration\<lparr>Gen_ID := ''g1'', Gen_Usage := zeroUsage\<lparr>Usage_Total := 7\<rparr>\<rparr>"
  let ?g0 = "zeroGeneration\<lparr>Gen_ID := ''g1''\<rparr>"
  have k: "generationKey ?g5 0 = ''generation:g1''" "generationKey ?g7 0 = ''generation:g1''"
    "generationKey ?g0 0 = ''generation:g1''"
    by (simp_all add: generationKey_id zeroGeneration_def)
  have z: "\<not> isZeroUsage (zeroUsage\<lparr>Usage_Total := 5\<rparr>)" "\<not> isZeroUsage (zeroUsage\<lparr>Usage_Total := 7\<rparr>)"
    by (simp_all add: isZeroUsage_def zeroUsage_def)
  have e: "storedUsage [] ''generation:g1'' = zeroUsage" by (simp add: storedUsage_def)
  have u: "Gen_Usage ?g5 = zeroUsage\<lparr>Usage_Total := 5\<rparr>" "Gen_Usage ?g7 = zeroUsage\<lparr>Usage_Total := 7\<rparr>"
    "Gen_Usage ?g0 = zeroUsage"
    by (simp_all add: zeroGeneration_def)
  show ?thesis
    using usage_merge[of "[]" ?g5 0] usage_merge[of "applyGenerationCreate [] ?g5 0" ?g7 0]
      usage_merge[of "applyGenerationCreate [] ?g5 0" ?g0 0]
    by (simp only: k z e u isZeroUsage_zeroUsage if_True if_False not_True_eq_False not_False_eq_True simp_thms)
qed


lemmas eventTypes = IngestionEventTypeTraceCreate_def IngestionEventTypeGenerationCreate_def
  IngestionEventTypeGenerationUpdate_def IngestionEventTypeSpanCreate_def
  IngestionEventTypeSpanUpdate_def IngestionEventTypeEventCreate_def IngestionEventTypeScoreCreate_def

lemmas kinds = observationKindTrace_def observationKindSpan_def observationKindGeneration_def
  observationKindEvent_def

lemmas asBody = asTrace_def asGeneration_def asSpan_def asEvent_def

lemmas applyDefs = applyTraceCreate_def applyGenerationCreate_def applyGenerationUpdate_def
  applySpanCreate_def applySpanUpdate_def applyEventCreate_def


lemma eventTypes_distinct:
  "distinct [IngestionEventTypeTraceCreate, IngestionEventTypeGenerationCreate,
     IngestionEventTypeGenerationUpdate, IngestionEventTypeSpanCreate, IngestionEventTypeSpanUpdate,
     IngestionEventTypeEventCreate]"
  by (simp add: eventTypes)

lemmas eventTypes_neq = eventTypes_distinct[simplified] eventTypes_distinct[simplified, THEN conjunct1]

lemma applyEvent_cases [consumes 1, case_names skip trace genCreate genUpdate spanCreate spanUpdate eventCreate]:
  assumes "applyEvent obs e = Inr obs'"
  obtains
    (skip) "eventKey e = None" "traceCreate e = None" "obs' = obs"
  | (trace) trace where "traceCreate e = Some (resolveTraceID e trace, trace)"
      "eventKey e = Some (observationKindTrace, resolveTraceID e trace)"
      "obs' = applyTraceCreate obs e trace"
  | (genCreate) gen where "traceCreate e = None"
      "eventKey e = Some (observationKindGeneration, coalesce (Gen_ID gen) (uuidFallback (Ingestion_Timestamp e)))"
      "obs' = applyGenerationCreate obs gen (Ingestion_Timestamp e)"
  | (genUpdate) gen where "traceCreate e = None"
      "eventKey e = Some (observationKindGeneration, coalesce (Gen_ID gen) (uuidFallback (Ingestion_Timestamp e)))"
      "obs' = applyGenerationUpdate obs gen (Ingestion_Timestamp e)"
  | (spanCreate) span where "traceCreate e = None"
      "eventKey e = Some (observationKindSpan, coalesce (Span_ID span) (uuidFallback (Ingestion_Timestamp e)))"
      "obs' = applySpanCreate obs span (Ingestion_Timestamp e)"
  | (spanUpdate) span where "traceCreate e = None"
      "eventKey e = Some (observationKindSpan, coalesce (Span_ID span) (uuidFallback (Ingestion_Timestamp e)))"
      "obs' = applySpanUpdate obs span (Ingestion_Timestamp e)"
  | (eventCreate) ev where "traceCreate e = None"
      "eventKey e = Some (observationKindEvent, coalesce (Event_ID ev) (uuidFallback (Ingestion_Timestamp e)))"
      "obs' = applyEventCreate obs ev (Ingestion_Timestamp e)"
proof (cases "Ingestion_Type e = IngestionEventTypeTraceCreate")
  case True
  with assms that(1,2) show ?thesis
    by (auto simp: applyEvent_def eventKey_def traceCreate_def
        split: prod.splits option.splits bool.splits)
next
  case nt: False
  show ?thesis
  proof (cases "Ingestion_Type e = IngestionEventTypeGenerationCreate")
    case True
    with assms nt that(1,3) eventTypes_neq show ?thesis
      by (auto simp: applyEvent_def eventKey_def traceCreate_def
          split: prod.splits option.splits bool.splits)
  next
    case ngc: False
    show ?thesis
    proof (cases "Ingestion_Type e = IngestionEventTypeGenerationUpdate")
      case True
      with assms nt ngc that(1,4) eventTypes_neq show ?thesis
        by (auto simp: applyEvent_def eventKey_def traceCreate_def
            split: prod.splits option.splits bool.splits)
    next
      case ngu: False
      show ?thesis
      proof (cases "Ingestion_Type e = IngestionEventTypeSpanCreate")
        case True
        with assms nt ngc ngu that(1,5) eventTypes_neq show ?thesis
          by (auto simp: applyEvent_def eventKey_def traceCreate_def
              split: prod.splits option.splits bool.splits)
      next
        case nsc: False
        show ?thesis
        proof (cases "Ingestion_Type e = IngestionEventTypeSpanUpdate")
          case True
          with assms nt ngc ngu nsc that(1,6) eventTypes_neq show ?thesis
            by (auto simp: applyEvent_def eventKey_def traceCreate_def
                split: prod.splits option.splits bool.splits)
        next
          case nsu: False
          show ?thesis
          proof (cases "Ingestion_Type e = IngestionEventTypeEventCreate")
            case True
            with assms nt ngc ngu nsc nsu that(1,7) eventTypes_neq show ?thesis
              by (auto simp: applyEvent_def eventKey_def traceCreate_def
                  split: prod.splits option.splits bool.splits)
          next
            case False
            with assms nt ngc ngu nsc nsu that(1) show ?thesis
              by (simp add: applyEvent_def eventKey_def traceCreate_def)
          qed
        qed
      qed
    qed
  qed
qed


lemma length_hex_EncodeToString: "length (hex_EncodeToString bs) = 2 * length bs"
  by (induction bs) (simp_all add: hex_EncodeToString_def)

lemma uuidFallback_length: "length (uuidFallback ts) = 32"
  by (simp add: uuidFallback_def Let_def length_hex_EncodeToString length_sha256)

lemma uuidFallback_nonempty [simp]: "uuidFallback ts \<noteq> []"
  using uuidFallback_length[of ts] by auto

lemma coalesce_uuidFallback [simp]: "coalesce ident (uuidFallback ts) \<noteq> []"
  by (simp add: coalesce_def)

lemma resolveTraceID_nonempty [simp]: "resolveTraceID e trace \<noteq> []"
  by (simp add: resolveTraceID_def Let_def)

lemma set_update_subset: "set (AList.update k v al) \<subseteq> insert (k, v) (set al)"
  by (induction al) auto

lemma getOrCreate_existing:
  "map_of obs key = Some st \<Longrightarrow> getOrCreateObservation obs key kind ts = st"
  by (simp add: getOrCreateObservation_def)

lemma getOrCreate_fresh:
  "map_of obs key = None \<Longrightarrow> getOrCreateObservation obs key kind ts = newObservationState kind ts"
  by (simp add: getOrCreateObservation_def)

lemma getOrCreate_invariant:
  assumes "statesInvariant obs" "kind = observationKindTrace \<or> kind = observationKindSpan
       \<or> kind = observationKindGeneration \<or> kind = observationKindEvent"
  shows "state_kind (getOrCreateObservation obs (keyString (kind, ident)) kind ts) = kind"
proof (cases "map_of obs (keyString (kind, ident))")
  case None
  then show ?thesis by (simp add: getOrCreate_fresh newObservationState_def)
next
  case (Some st)
  then have "(keyString (kind, ident), st) \<in> set obs" by (rule map_of_SomeD)
  with assms(1) have "stateInvariant (keyString (kind, ident)) st"
    by (auto simp: statesInvariant_def)
  with assms(2) have "state_kind st = kind"
    by (auto simp: stateInvariant_def keyString_def kinds)
  with Some show ?thesis by (simp add: getOrCreate_existing)
qed

lemma statesInvariant_update:
  assumes "statesInvariant obs" "stateInvariant key st"
  shows "statesInvariant (AList.update key st obs)"
  using assms set_update_subset[of key st obs] by (auto simp: statesInvariant_def)

lemma applyEvent_invariant:
  assumes "applyEvent obs e = Inr obs'" "statesInvariant obs"
  shows "statesInvariant obs'"
  using assms(1)
proof (cases rule: applyEvent_cases)
  case skip
  with assms show ?thesis by simp
next
  case (trace trace)
  show ?thesis
    unfolding trace(3) applyTraceCreate_def Let_def
    apply (rule statesInvariant_update[OF assms(2)])
    using getOrCreate_invariant[OF assms(2), of observationKindTrace "resolveTraceID e trace" "Ingestion_Timestamp e"]
    apply (simp add: stateInvariant_def keyString_def kinds)
    done
next
  case (genCreate gen)
  show ?thesis
    unfolding genCreate(3) applyGenerationCreate_def Let_def
    apply (rule statesInvariant_update[OF assms(2)])
    using getOrCreate_invariant[OF assms(2), of observationKindGeneration
        "coalesce (Gen_ID gen) (uuidFallback (Ingestion_Timestamp e))" "Ingestion_Timestamp e"]
    apply (simp add: stateInvariant_def keyString_def kinds)
    done
next
  case (genUpdate gen)
  show ?thesis
    unfolding genUpdate(3) applyGenerationUpdate_def Let_def
    apply (rule statesInvariant_update[OF assms(2)])
    using getOrCreate_invariant[OF assms(2), of observationKindGeneration
        "coalesce (Gen_ID gen) (uuidFallback (Ingestion_Timestamp e))" "Ingestion_Timestamp e"]
    apply (simp add: stateInvariant_def keyString_def kinds)
    done
next
  case (spanCreate span)
  show ?thesis
    unfolding spanCreate(3) applySpanCreate_def Let_def
    apply (rule statesInvariant_update[OF assms(2)])
    using getOrCreate_invariant[OF assms(2), of observationKindSpan
        "coalesce (Span_ID span) (uuidFallback (Ingestion_Timestamp e))" "Ingestion_Timestamp e"]
    apply (simp add: stateInvariant_def keyString_def kinds)
    done
next
  case (spanUpdate span)
  show ?thesis
    unfolding spanUpdate(3) applySpanUpdate_def Let_def
    apply (rule statesInvariant_update[OF assms(2)])
    using getOrCreate_invariant[OF assms(2), of observationKindSpan
        "coalesce (Span_ID span) (uuidFallback (Ingestion_Timestamp e))" "Ingestion_Timestamp e"]
    apply (simp add: stateInvariant_def keyString_def kinds)
    done
next
  case (eventCreate ev)
  show ?thesis
    unfolding eventCreate(3) applyEventCreate_def Let_def
    apply (rule statesInvariant_update[OF assms(2)])
    using getOrCreate_invariant[OF assms(2), of observationKindEvent
        "coalesce (Event_ID ev) (uuidFallback (Ingestion_Timestamp e))" "Ingestion_Timestamp e"]
    apply (simp add: stateInvariant_def keyString_def kinds)
    done
qed

lemma observationsLoop_invariant:
  "observationsLoop events obs = Inr obs' \<Longrightarrow> statesInvariant obs \<Longrightarrow> statesInvariant obs'"
  by (induction events arbitrary: obs) (auto split: sum.splits dest: applyEvent_invariant)



lemma applyEvent_total:
  assumes "\<not> nilPayload e"
  shows "\<exists>obs'. applyEvent obs e = Inr obs'"
  using assms
  by (cases "Ingestion_Body e")
     (auto simp: applyEvent_def nilPayload_def asBody split: option.splits)

lemma applyEvent_nilPayload:
  assumes "nilPayload e"
  shows "applyEvent obs e = Inl Panic"
  using assms eventTypes_neq
  by (auto simp: applyEvent_def nilPayload_def asBody)

lemma observationsLoop_total:
  "\<not> list_ex nilPayload events \<Longrightarrow> \<exists>obs'. observationsLoop events obs = Inr obs'"
proof (induction events arbitrary: obs)
  case Nil
  show ?case by simp
next
  case (Cons e events)
  then obtain obs1 where "applyEvent obs e = Inr obs1"
    using applyEvent_total[of e obs] by auto
  with Cons show ?case by simp
qed

lemma traceContextsLoop_total:
  "\<not> list_ex nilPayload events \<Longrightarrow> \<exists>tcs'. traceContextsLoop rt i events tcs = Inr tcs'"
proof (induction events arbitrary: i tcs)
  case Nil
  show ?case by simp
next
  case (Cons e events)
  then have ne: "\<not> nilPayload e" and rest: "\<not> list_ex nilPayload events" by simp_all
  show ?case
  proof (cases "Ingestion_Type e = IngestionEventTypeTraceCreate")
    case False
    with Cons.IH[OF rest] show ?thesis by simp
  next
    case True
    with ne Cons.IH[OF rest] show ?thesis
      by (cases "Ingestion_Body e")
         (auto simp: nilPayload_def asTrace_def Let_def split: option.splits)
  qed
qed

lemma eventKey_kind:
  assumes "eventKey e = Some k"
  shows "fst k = observationKindTrace \<or> fst k = observationKindSpan
       \<or> fst k = observationKindGeneration \<or> fst k = observationKindEvent"
  using assms
  by (auto simp: eventKey_def split: if_splits prod.splits option.splits bool.splits)

lemma keyString_inj:
  assumes "keyString k = keyString k'"
    and "fst k = observationKindTrace \<or> fst k = observationKindSpan
       \<or> fst k = observationKindGeneration \<or> fst k = observationKindEvent"
    and "fst k' = observationKindTrace \<or> fst k' = observationKindSpan
       \<or> fst k' = observationKindGeneration \<or> fst k' = observationKindEvent"
  shows "k = k'"
  using assms by (cases k; cases k') (auto simp: keyString_def kinds)

lemma applyEvent_keys:
  assumes "applyEvent obs e = Inr obs'"
  shows "map fst obs' =
     (case eventKey e of
        None \<Rightarrow> map fst obs
      | Some k \<Rightarrow> if keyString k \<in> set (map fst obs) then map fst obs else map fst obs @ [keyString k])"
  using assms
  by (cases rule: applyEvent_cases)
     (simp_all add: applyDefs Let_def update_keys keyString_def kinds del: set_map)

lemma observationsLoop_keys:
  assumes "observationsLoop events obs = Inr obs'"
  shows "set (map fst obs') = set (map fst obs) \<union> keyString ` set (List.map_filter eventKey events)
     \<and> (distinct (map fst obs) \<longrightarrow> distinct (map fst obs'))"
  using assms
proof (induction events arbitrary: obs)
  case Nil
  then show ?case by simp
next
  case (Cons e events)
  from Cons.prems obtain obs1 where s: "applyEvent obs e = Inr obs1"
    and r: "observationsLoop events obs1 = Inr obs'"
    by (auto split: sum.splits)
  from applyEvent_keys[OF s] have
    "set (map fst obs1) = set (map fst obs) \<union> keyString ` set (List.map_filter eventKey [e])"
    "distinct (map fst obs) \<longrightarrow> distinct (map fst obs1)"
    by (auto split: option.splits if_splits)
  with Cons.IH[OF r] show ?case
    by (auto split: option.splits)
qed

lemma set_map_filter: "k \<in> set (List.map_filter f xs) \<longleftrightarrow> (\<exists>x \<in> set xs. f x = Some k)"
  by (induction xs) (auto split: option.splits)

lemma rangeMap_subset: "set (rangeMap ord m) \<subseteq> set m"
  by (auto simp: rangeMap_def dest: map_of_SomeD[OF sym] split: option.splits)

lemma length_concat_singletons:
  "(\<forall>x \<in> set xs. length (f x) = 1) \<Longrightarrow> length (concat (map f xs)) = length xs"
  by (induction xs) simp_all

lemma length_rangeMap:
  assumes "valid_order ord"
  shows "length (rangeMap ord m) = length m"
proof -
  let ?f = "\<lambda>k. case map_of m k of None \<Rightarrow> [] | Some v \<Rightarrow> [(k, v)]"
  from assms have ms: "mset (ord (map fst m)) = mset (map fst m)" by (simp add: valid_order_def)
  then have "set (ord (map fst m)) = set (map fst m)" by (rule mset_eq_setD)
  then have "\<forall>k \<in> set (ord (map fst m)). length (?f k) = 1"
    by (auto split: option.splits dest: weak_map_of_SomeI)
  then have "length (concat (map ?f (ord (map fst m)))) = length (ord (map fst m))"
    by (rule length_concat_singletons)
  also have "\<dots> = length m" using ms mset_eq_length by fastforce
  finally show ?thesis by (simp add: rangeMap_def)
qed

lemma requestSpans_encodeRequest:
  assumes "encodeRequest rt events = Inr request"
  shows "\<exists>tcs obs. traceContextsLoop rt 0 events Map.empty = Inr tcs
     \<and> observationsLoop events [] = Inr obs \<and> requestSpans request = encodeSpans rt tcs obs"
  using assms by (auto simp: encodeRequest_def requestSpans_def split: sum.splits)

lemma encodeRequest_states:
  assumes "valid_runtime rt" "\<not> list_ex nilPayload events"
  shows "\<exists>request tcs obs. encodeRequest rt events = Inr request
     \<and> traceContextsLoop rt 0 events Map.empty = Inr tcs
     \<and> observationsLoop events [] = Inr obs
     \<and> requestSpans request = encodeSpans rt tcs obs
     \<and> length (requestSpans request) = length obs
     \<and> distinct (map fst obs)
     \<and> set (map fst obs) = keyString ` set (List.map_filter eventKey events)"
proof -
  from assms(2) obtain tcs where t: "traceContextsLoop rt 0 events Map.empty = Inr tcs"
    using traceContextsLoop_total by blast
  from assms(2) obtain obs where o: "observationsLoop events [] = Inr obs"
    using observationsLoop_total by blast
  from t o obtain request where r: "encodeRequest rt events = Inr request"
    by (simp add: encodeRequest_def)
  from requestSpans_encodeRequest[OF r] t o have sp: "requestSpans request = encodeSpans rt tcs obs"
    by simp
  from assms(1) have "valid_order (rangeOrder rt ObservationStates)" by (simp add: valid_runtime_def)
  then have len: "length (requestSpans request) = length obs"
    by (simp add: sp encodeSpans_def length_rangeMap)
  from observationsLoop_keys[OF o] t o r sp len show ?thesis by simp
qed

lemma keyString_inj_on: "inj_on keyString (set (List.map_filter eventKey events))"
proof (rule inj_onI)
  fix k k' assume "k \<in> set (List.map_filter eventKey events)" "k' \<in> set (List.map_filter eventKey events)"
    "keyString k = keyString k'"
  then obtain e e' where "eventKey e = Some k" "eventKey e' = Some k'" and eq: "keyString k = keyString k'"
    by (auto simp: set_map_filter)
  then show "k = k'"
    using eventKey_kind[of e k] eventKey_kind[of e' k'] by (intro keyString_inj[OF eq]) simp_all
qed

text \<open>
  C5. For every batch of events, none with a nil payload pointer, whose recognized events
  resolve to M distinct pairs of kind and id, the request that \<open>EncodeEvents\<close> builds has
  exactly M spans: one for each aggregated state.
\<close>

theorem one_span_per_key:
  assumes "valid_runtime rt" "\<not> list_ex nilPayload events"
  shows "\<exists>request. encodeRequest rt events = Inr request
     \<and> length (requestSpans request) = card (set (List.map_filter eventKey events))"
proof -
  from encodeRequest_states[OF assms] obtain request tcs obs where
    r: "encodeRequest rt events = Inr request"
    and "traceContextsLoop rt 0 events Map.empty = Inr tcs"
    and "observationsLoop events [] = Inr obs"
    and "requestSpans request = encodeSpans rt tcs obs"
    and len: "length (requestSpans request) = length obs"
    and d: "distinct (map fst obs)"
    and keys: "set (map fst obs) = keyString ` set (List.map_filter eventKey events)"
    by (elim exE conjE)
  have "card (keyString ` set (List.map_filter eventKey events)) = card (set (List.map_filter eventKey events))"
    using keyString_inj_on by (rule card_image)
  with keys have "card (set (map fst obs)) = card (set (List.map_filter eventKey events))" by simp
  moreover from d have "card (set (map fst obs)) = length obs"
    using distinct_card by fastforce
  ultimately show ?thesis using r len by auto
qed

lemma statesInvariant_Nil: "statesInvariant []"
  by (simp add: statesInvariant_def)

lemma kind_nonempty:
  "stateInvariant key state \<Longrightarrow> state_kind state \<noteq> []"
  by (auto simp: stateInvariant_def kinds)

text \<open>
  C10. Every span of the request has a non-empty name: the name of the state it is built
  from or, when no event set a name, the kind of the state, which is one of \<^verbatim>\<open>trace\<close>,
  \<^verbatim>\<open>span\<close>, \<^verbatim>\<open>generation\<close> and \<^verbatim>\<open>event\<close>.
\<close>

theorem span_name_nonempty:
  assumes "encodeRequest rt events = Inr request" "span \<in> set (requestSpans request)"
  shows "Name span \<noteq> []
     \<and> (\<exists>observations key state. observationsLoop events [] = Inr observations
           \<and> (key, state) \<in> set observations
           \<and> Name span = (if state_name state \<noteq> [] then state_name state else state_kind state)
           \<and> (state_kind state = observationKindTrace \<or> state_kind state = observationKindSpan
                \<or> state_kind state = observationKindGeneration \<or> state_kind state = observationKindEvent))"
proof -
  from requestSpans_encodeRequest[OF assms(1)] obtain tcs obs where
    o: "observationsLoop events [] = Inr obs" and sp: "requestSpans request = encodeSpans rt tcs obs"
    by blast
  from assms(2) sp obtain key st where ks: "(key, st) \<in> set (rangeMap (rangeOrder rt ObservationStates) obs)"
    and b: "span = buildSpan rt (rangeOrder rt (StateMetadataAt key)) st (tcs (state_traceID st))"
    by (auto simp: encodeSpans_def)
  from ks have mem: "(key, st) \<in> set obs" using rangeMap_subset by blast
  from observationsLoop_invariant[OF o statesInvariant_Nil] mem have inv: "stateInvariant key st"
    by (auto simp: statesInvariant_def)
  from b have n: "Name span = (if state_name st \<noteq> [] then state_name st else state_kind st)"
    by (simp add: buildSpan_def Let_def coalesce_def)
  with kind_nonempty[OF inv] have "Name span \<noteq> []" by auto
  with o mem n inv show ?thesis by (auto simp: stateInvariant_def)
qed



lemma valid_sampleRuntime: "valid_runtime (sampleRuntime (\<lambda>ks. ks))" "valid_runtime (sampleRuntime rev)"
  by (simp_all add: valid_runtime_def valid_order_def sampleRuntime_def)

lemmas sample_defs = ingestionEvent_def zeroSpan_def zeroGeneration_def zeroTrace_def zeroEvent_def

theorem one_span_per_key_witness:
  "valid_runtime (sampleRuntime (\<lambda>ks. ks))
   \<and> \<not> list_ex nilPayload
        [ingestionEvent IngestionEventTypeSpanCreate [] 1 (SpanVal (zeroSpan\<lparr>Span_ID := ''a''\<rparr>)),
         ingestionEvent IngestionEventTypeSpanUpdate [] 2 (SpanPtr (Some (zeroSpan\<lparr>Span_ID := ''a''\<rparr>))),
         ingestionEvent IngestionEventTypeGenerationCreate [] 3 (GenerationVal (zeroGeneration\<lparr>Gen_ID := ''b''\<rparr>))]
   \<and> (\<exists>request. encodeRequest (sampleRuntime (\<lambda>ks. ks))
        [ingestionEvent IngestionEventTypeSpanCreate [] 1 (SpanVal (zeroSpan\<lparr>Span_ID := ''a''\<rparr>)),
         ingestionEvent IngestionEventTypeSpanUpdate [] 2 (SpanPtr (Some (zeroSpan\<lparr>Span_ID := ''a''\<rparr>))),
         ingestionEvent IngestionEventTypeGenerationCreate [] 3 (GenerationVal (zeroGeneration\<lparr>Gen_ID := ''b''\<rparr>))]
        = Inr request \<and> length (requestSpans request) = 2)"
proof -
  let ?evs = "[ingestionEvent IngestionEventTypeSpanCreate [] 1 (SpanVal (zeroSpan\<lparr>Span_ID := ''a''\<rparr>)),
         ingestionEvent IngestionEventTypeSpanUpdate [] 2 (SpanPtr (Some (zeroSpan\<lparr>Span_ID := ''a''\<rparr>))),
         ingestionEvent IngestionEventTypeGenerationCreate [] 3 (GenerationVal (zeroGeneration\<lparr>Gen_ID := ''b''\<rparr>))]"
  have n: "\<not> list_ex nilPayload ?evs"
    by (simp add: nilPayload_def sample_defs eventTypes)
  have k: "List.map_filter eventKey ?evs =
      [(observationKindSpan, ''a''), (observationKindSpan, ''a''), (observationKindGeneration, ''b'')]"
    by (simp add: eventKey_def sample_defs asBody coalesce_def eventTypes)
  have "card (set (List.map_filter eventKey ?evs)) = 2"
    unfolding k by (simp add: kinds)
  with one_span_per_key[OF valid_sampleRuntime(1) n] n valid_sampleRuntime(1) show ?thesis
    by simp
qed

theorem span_name_nonempty_witness:
  "\<exists>request span.
     encodeRequest (sampleRuntime (\<lambda>ks. ks))
       [ingestionEvent IngestionEventTypeSpanCreate [] 1 (SpanVal (zeroSpan\<lparr>Span_ID := ''a''\<rparr>))] = Inr request
     \<and> span \<in> set (requestSpans request) \<and> Name span = ''span''"
proof -
  let ?evs = "[ingestionEvent IngestionEventTypeSpanCreate [] 1 (SpanVal (zeroSpan\<lparr>Span_ID := ''a''\<rparr>))]"
  have n: "\<not> list_ex nilPayload ?evs"
    by (simp add: nilPayload_def sample_defs eventTypes)
  from encodeRequest_states[OF valid_sampleRuntime(1) n] obtain request tcs obs where
    r: "encodeRequest (sampleRuntime (\<lambda>ks. ks)) ?evs = Inr request"
    and "traceContextsLoop (sampleRuntime (\<lambda>ks. ks)) 0 ?evs Map.empty = Inr tcs"
    and o: "observationsLoop ?evs [] = Inr obs"
    and "requestSpans request = encodeSpans (sampleRuntime (\<lambda>ks. ks)) tcs obs"
    and len: "length (requestSpans request) = length obs"
    and "distinct (map fst obs)"
    and "set (map fst obs) = keyString ` set (List.map_filter eventKey ?evs)"
    by (elim exE conjE)
  have st: "observationsLoop ?evs [] =
      Inr [(''span:a'', (newObservationState observationKindSpan 1)\<lparr>state_id := ''a''\<rparr>)]"
    by (simp add: applyEvent_def sample_defs asBody applySpanCreate_def getOrCreateObservation_def
        coalesce_def coalesceAny_def coalesceTime_def Let_def newObservationState_def eventTypes)
  with o len have "requestSpans request \<noteq> []" by auto
  then obtain span where sp: "span \<in> set (requestSpans request)" by (cases "requestSpans request") auto
  from span_name_nonempty[OF r sp] st have "Name span = ''span''"
    by (auto simp: newObservationState_def kinds)
  with r sp show ?thesis by blast
qed

subsection \<open>The public flag of a trace\<close>

lemma trace_key_neq:
  "''generation:'' @ a \<noteq> ''trace:'' @ b" "''span:'' @ a \<noteq> ''trace:'' @ b" "''event:'' @ a \<noteq> ''trace:'' @ b"
  by simp_all

lemma applyEvent_public:
  assumes "applyEvent obs e = Inr obs'" "statesInvariant obs"
  shows "map_option state_public (map_of obs' (''trace:'' @ tid)) =
     (case map_of obs (''trace:'' @ tid) of
        Some st \<Rightarrow> Some (state_public st)
      | None \<Rightarrow>
          (case traceCreate e of
             Some (k, trace) \<Rightarrow> if k = tid then Some (Some (Trace_Public trace)) else None
           | None \<Rightarrow> None))"
  using assms(1)
proof (cases rule: applyEvent_cases)
  case skip
  then show ?thesis by (simp split: option.splits)
next
  case (trace trace)
  show ?thesis
  proof (cases "resolveTraceID e trace = tid")
    case False
    with trace show ?thesis
      by (simp add: applyTraceCreate_def Let_def update_conv' split: option.splits)
  next
    case True
    show ?thesis
    proof (cases "map_of obs (''trace:'' @ tid)")
      case None
      with trace True show ?thesis
        by (simp add: applyTraceCreate_def Let_def update_conv' getOrCreate_fresh newObservationState_def)
    next
      case (Some st)
      then have "(''trace:'' @ tid, st) \<in> set obs" by (rule map_of_SomeD)
      with assms(2) have "stateInvariant (''trace:'' @ tid) st" by (auto simp: statesInvariant_def)
      then have "state_public st \<noteq> None"
        by (auto simp: stateInvariant_def keyString_def kinds)
      with trace True Some show ?thesis
        by (simp add: applyTraceCreate_def Let_def update_conv' getOrCreate_existing)
    qed
  qed
next
  case (genCreate gen)
  then show ?thesis
    by (simp add: applyGenerationCreate_def Let_def update_conv' trace_key_neq split: option.splits)
next
  case (genUpdate gen)
  then show ?thesis
    by (simp add: applyGenerationUpdate_def Let_def update_conv' trace_key_neq split: option.splits)
next
  case (spanCreate span)
  then show ?thesis
    by (simp add: applySpanCreate_def Let_def update_conv' trace_key_neq split: option.splits)
next
  case (spanUpdate span)
  then show ?thesis
    by (simp add: applySpanUpdate_def Let_def update_conv' trace_key_neq split: option.splits)
next
  case (eventCreate ev)
  then show ?thesis
    by (simp add: applyEventCreate_def Let_def update_conv' trace_key_neq split: option.splits)
qed

lemma traceCreatesFor_Cons:
  "traceCreatesFor tid (e # events) =
     (case traceCreate e of
        Some (k, trace) \<Rightarrow> if k = tid then trace # traceCreatesFor tid events else traceCreatesFor tid events
      | None \<Rightarrow> traceCreatesFor tid events)"
  by (simp add: traceCreatesFor_def split: option.splits)

lemma observationsLoop_public:
  assumes "observationsLoop events obs = Inr obs'" "statesInvariant obs"
  shows "map_option state_public (map_of obs' (''trace:'' @ tid)) =
     (case map_of obs (''trace:'' @ tid) of
        Some st \<Rightarrow> Some (state_public st)
      | None \<Rightarrow>
          (case traceCreatesFor tid events of
             [] \<Rightarrow> None
           | trace # later \<Rightarrow> Some (Some (Trace_Public trace))))"
  using assms
proof (induction events arbitrary: obs)
  case Nil
  then show ?case by (simp add: traceCreatesFor_def split: option.splits)
next
  case (Cons e events)
  from Cons.prems(1) obtain obs1 where s: "applyEvent obs e = Inr obs1"
    and r: "observationsLoop events obs1 = Inr obs'"
    by (auto split: sum.splits)
  from applyEvent_invariant[OF s Cons.prems(2)] have inv1: "statesInvariant obs1" .
  note step = applyEvent_public[OF s Cons.prems(2), of tid]
  note ih = Cons.IH[OF r inv1]
  show ?case
  proof (cases "map_of obs1 (''trace:'' @ tid)")
    case None
    with step ih show ?thesis
      by (auto simp: traceCreatesFor_Cons split: option.splits if_splits)
  next
    case (Some st1)
    with step ih show ?thesis
      by (auto simp: traceCreatesFor_Cons split: option.splits if_splits)
  qed
qed

text \<open>
  C8. For every trace key, the public flag of its state is the flag of the first
  trace-create event of the batch that resolves to the key, whatever the later
  trace-create events for the key carry; a key no trace-create event resolves to has no
  state.
\<close>

theorem public_set_once:
  assumes "observationsLoop events [] = Inr observations"
  shows "map_option state_public (map_of observations (''trace:'' @ traceID)) =
     (case traceCreatesFor traceID events of
        [] \<Rightarrow> None
      | trace # later \<Rightarrow> Some (Some (Trace_Public trace)))"
  using observationsLoop_public[OF assms statesInvariant_Nil, of traceID] by simp



theorem public_set_once_witness:
  "\<exists>observations.
     observationsLoop
       [ingestionEvent IngestionEventTypeTraceCreate [] 1 (TraceVal (zeroTrace\<lparr>Trace_ID := ''t1'', Trace_Public := True\<rparr>)),
        ingestionEvent IngestionEventTypeSpanCreate [] 2 (SpanVal (zeroSpan\<lparr>Span_ID := ''s1'', Span_TraceID := ''t1''\<rparr>)),
        ingestionEvent IngestionEventTypeTraceCreate [] 3 (TraceVal (zeroTrace\<lparr>Trace_ID := ''t1'', Trace_Public := False\<rparr>))]
       [] = Inr observations
     \<and> map_option state_public (map_of observations ''trace:t1'') = Some (Some True)"
proof -
  let ?evs = "[ingestionEvent IngestionEventTypeTraceCreate [] 1 (TraceVal (zeroTrace\<lparr>Trace_ID := ''t1'', Trace_Public := True\<rparr>)),
        ingestionEvent IngestionEventTypeSpanCreate [] 2 (SpanVal (zeroSpan\<lparr>Span_ID := ''s1'', Span_TraceID := ''t1''\<rparr>)),
        ingestionEvent IngestionEventTypeTraceCreate [] 3 (TraceVal (zeroTrace\<lparr>Trace_ID := ''t1'', Trace_Public := False\<rparr>))]"
  have "\<not> list_ex nilPayload ?evs"
    by (simp add: nilPayload_def sample_defs eventTypes)
  then obtain observations where o: "observationsLoop ?evs [] = Inr observations"
    using observationsLoop_total by blast
  have "traceCreatesFor ''t1'' ?evs =
      [zeroTrace\<lparr>Trace_ID := ''t1'', Trace_Public := True\<rparr>, zeroTrace\<lparr>Trace_ID := ''t1'', Trace_Public := False\<rparr>]"
    by (simp add: traceCreatesFor_def traceCreate_def sample_defs eventTypes asTrace_def resolveTraceID_def)
  with public_set_once[OF o, of "''t1''"] o show ?thesis
    by (auto simp: zeroTrace_def)
qed

subsection \<open>A generation created and then updated\<close>











lemma valuesAt_Nil [simp]: "valuesAt k [] = []"
  by (simp add: valuesAt_def)

lemma valuesAt_append [simp]: "valuesAt k (xs @ ys) = valuesAt k xs @ valuesAt k ys"
  by (simp add: valuesAt_def map_filter_def)
















subsection \<open>Two encodings of one batch\<close>






















end
